theory Spec2Isabelle
  imports Main
begin

section \<open>The image generator: data model\<close>

text \<open>
  The development embeds the current revision of \<^verbatim>\<open>index.tsx\<close> (the one with the History
  Ledger and the database integration): \<^verbatim>\<open>generateImages\<close> and the functions it calls.
  The page is a record of the module's variables and of the DOM nodes the code reads and
  writes. Every awaited call of the generative API is an input: the environment says, for
  the unit at each index, how the call settles. A JavaScript exception is the left summand
  of a sum, and a function that mutates the page before it throws returns the mutated page
  beside the exception, since a \<^verbatim>\<open>catch\<close> block sees those mutations.
\<close>

type_synonym js_error = string

text \<open>An awaited promise either rejects (the \<^verbatim>\<open>await\<close> throws) or resolves.\<close>

datatype 'a promise = Rejected js_error | Resolved 'a

text \<open>\<^verbatim>\<open>JSON.parse(response.text)\<close> throws a SyntaxError or yields a value.\<close>

datatype 'a json_text = SyntaxError js_error | Parsed 'a

text \<open>
  \<^verbatim>\<open>GeneratedImage\<close> of the SDK, flattened: the code reads \<^verbatim>\<open>imageData.image.imageBytes\<close>
  and writes \<^verbatim>\<open>{image: {imageBytes, mimeType}}\<close>.
\<close>

record GeneratedImage =
  imageBytes :: string
  mimeType :: string

record HistoryItem =
  item_id :: int
  item_prompt :: string
  item_model :: string
  thumbnail :: string
  timestamp :: int

text \<open>A part of a multimodal response: \<^verbatim>\<open>part.text\<close> and \<^verbatim>\<open>part.inlineData\<close>, both optional.\<close>

record Blob =
  blob_data :: string
  blob_mimeType :: "string option"

record Part =
  part_text :: "string option"
  inlineData :: "Blob option"

text \<open>
  \<^verbatim>\<open>response.candidates?.[0]?.content.parts\<close>: no first candidate gives \<^verbatim>\<open>undefined\<close>; a first
  candidate without \<^verbatim>\<open>content\<close> makes the property read throw; otherwise the parts, which
  may be \<^verbatim>\<open>undefined\<close> themselves.
\<close>

datatype candidates = NoCandidate | NoContent | Content "Part list option"

text \<open>
  The parsed answer of the diversifier: \<^verbatim>\<open>null\<close>, or a value whose \<^verbatim>\<open>prompts\<close> property is
  falsy (\<open>Missing\<close>), truthy but no array, or an array of strings.
\<close>

datatype prompts_field = Missing | NotAnArray | PromptArray "string list"

datatype diverse_json = DiverseNull | DiverseValue prompts_field

text \<open>
  The parsed answer of the classifier: \<^verbatim>\<open>null\<close>, or a value whose \<^verbatim>\<open>title\<close> and
  \<^verbatim>\<open>category\<close> properties are read by destructuring (absent ones are \<^verbatim>\<open>undefined\<close>).
\<close>

datatype metadata_json = MetaNull | MetaValue (title: "string option") (category: "string option")

record payload =
  payload_title :: "string option"
  payload_prompt :: string
  payload_category :: "string option"
  payload_model :: string
  payload_caption :: string
  payload_imageData :: string

text \<open>The network calls of the page, logged in the order in which the code issues them.\<close>

datatype api_call =
    DiversePromptsCall string "int option"
  | ContentImageCall string
  | ImagesCall string string "int option"
  | CaptionCall string string
  | MetadataCall string
  | DatabasePost payload

text \<open>
  A gallery slot: the empty \<^verbatim>\<open>div.image-container.loading\<close>; a container that
  \<^verbatim>\<open>populateImageContainer\<close> filled (the base64 image, the alt text, the caption shown,
  whether the class \<^verbatim>\<open>loading\<close> is still set, and the handler on \<^verbatim>\<open>img.onload\<close>); or the
  paragraph that replaces the content after a failure, with \<^verbatim>\<open>loading\<close> removed.
\<close>

datatype onload_handler = NoHandler | FinishLoading | CaptionThenFinish

datatype container =
    Placeholder
  | Populated (img_base64: string) (img_alt: string) (caption: string) (loading: bool)
      (onload: onload_handler)
  | FailureNote string

text \<open>\<^verbatim>\<open>imageGallery\<close>: markup assigned to \<^verbatim>\<open>innerHTML\<close> (its text), or the appended containers.\<close>

datatype gallery = InnerHTML string | Containers "container list"

datatype progress = Hidden | Determinate nat nat | Indeterminate string | IndeterminateCount "int option"

text \<open>
  What \<^verbatim>\<open>localStorage\<close> holds under \<^verbatim>\<open>HISTORY_STORAGE_KEY\<close>: the empty string, the
  serialisation of a ledger (\<^verbatim>\<open>JSON.stringify\<close> and \<^verbatim>\<open>JSON.parse\<close> are inverse on it), or a
  text on which \<^verbatim>\<open>JSON.parse\<close> or the rendering of the parsed value throws.
\<close>

datatype stored_text = EmptyText | HistoryJson "HistoryItem list" | OtherText

record app =
  totalGeneratedCount :: nat
  generationHistory :: "HistoryItem list"
  stored_history :: "stored_text option"
  imageGallery :: gallery
  allGeneratedImages :: "GeneratedImage list"
  errorMessage :: string
  errorHidden :: bool
  downloadHidden :: bool
  galleryCountSpan :: nat
  totalGeneratedCountSpan :: nat
  progressState :: progress
  buttonText :: string
  buttonDisabled :: bool
  calls :: "api_call list"

text \<open>
  The inputs of one run: the form (the prompt, \<^verbatim>\<open>parseInt\<close> of the number field with
  \<open>None\<close> for \<^verbatim>\<open>NaN\<close>, the selected model, the checkbox) and the environment (how each
  backing call settles, by unit index; whether a just created image is already complete;
  whether \<^verbatim>\<open>localStorage.setItem\<close> succeeds; the two readings of \<^verbatim>\<open>Date.now()\<close>; and the
  message of the TypeError that the engine throws when the named property of \<^verbatim>\<open>null\<close> or
  \<^verbatim>\<open>undefined\<close> is read, and the message of its RangeError for an invalid array length,
  which differ from engine to engine).
\<close>

record request =
  promptInput :: string
  numberOfImages :: "int option"
  selectedModel :: string
  diverseSubjects :: bool

record env =
  diverseOutcome :: "diverse_json json_text promise"
  contentOutcome :: "nat \<Rightarrow> candidates promise"
  imagesOutcome :: "nat \<Rightarrow> GeneratedImage list option promise"
  batchOutcome :: "GeneratedImage list option promise"
  captionOutcome :: "nat \<Rightarrow> string promise"
  metadataOutcome :: "nat \<Rightarrow> metadata_json json_text promise"
  imgComplete :: "nat \<Rightarrow> bool"
  setItemOk :: bool
  now_id :: int
  now_timestamp :: int
  typeErrorMessage :: "string \<Rightarrow> js_error"
  rangeErrorMessage :: js_error

section \<open>Error display, counts and progress\<close>

definition displayError :: "string \<Rightarrow> app \<Rightarrow> app" where
  "displayError message s = s\<lparr>errorMessage := ''An error occurred: '' @ message, errorHidden := False\<rparr>"

definition hideError :: "app \<Rightarrow> app" where
  "hideError s = s\<lparr>errorHidden := True\<rparr>"

definition updateUiCounts :: "nat \<Rightarrow> app \<Rightarrow> app" where
  "updateUiCounts galleryCount s =
     s\<lparr>galleryCountSpan := galleryCount, totalGeneratedCountSpan := totalGeneratedCount s\<rparr>"

definition updateProgress :: "nat \<Rightarrow> nat \<Rightarrow> app \<Rightarrow> app" where
  "updateProgress current n s = s\<lparr>progressState := Determinate current n\<rparr>"

definition showIndeterminateProgress :: "progress \<Rightarrow> app \<Rightarrow> app" where
  "showIndeterminateProgress message s = s\<lparr>progressState := message\<rparr>"

definition hideProgress :: "app \<Rightarrow> app" where
  "hideProgress s = s\<lparr>progressState := Hidden\<rparr>"

section \<open>The History Ledger\<close>

definition storage_full_message :: string where
  "storage_full_message = ''Could not save history. Your browser'' @ [CHR 0x27] @ ''s storage might be full.''"

text \<open>
  \<^verbatim>\<open>renderHistory\<close> redraws the list from \<^verbatim>\<open>generationHistory\<close> and writes nothing else, so the
  model leaves it out. \<^verbatim>\<open>saveHistory\<close>: a failing \<^verbatim>\<open>setItem\<close> is caught and reported; the
  storage keeps its value.
\<close>

definition saveHistory :: "bool \<Rightarrow> app \<Rightarrow> app" where
  "saveHistory ok s =
     (if ok then s\<lparr>stored_history := Some (HistoryJson (generationHistory s))\<rparr>
      else displayError storage_full_message s)"

definition loadHistory :: "app \<Rightarrow> app" where
  "loadHistory s =
     (case stored_history s of
        None \<Rightarrow> s
      | Some EmptyText \<Rightarrow> s
      | Some (HistoryJson items) \<Rightarrow> s\<lparr>generationHistory := items\<rparr>
      | Some OtherText \<Rightarrow> s\<lparr>generationHistory := []\<rparr>)"

definition addToHistory :: "bool \<Rightarrow> int \<Rightarrow> int \<Rightarrow> string \<Rightarrow> string \<Rightarrow> GeneratedImage \<Rightarrow> app \<Rightarrow> app" where
  "addToHistory ok t_id t_timestamp prompt model firstImage s =
     (let newItem = \<lparr>item_id = t_id, item_prompt = prompt, item_model = model,
                      thumbnail = imageBytes firstImage, timestamp = t_timestamp\<rparr>
      in saveHistory ok (s\<lparr>generationHistory := newItem # generationHistory s\<rparr>))"

definition clearHistory :: "bool \<Rightarrow> app \<Rightarrow> app" where
  "clearHistory ok s = saveHistory ok (s\<lparr>generationHistory := []\<rparr>)"

section \<open>The Metadata Classifier and the Background Persister\<close>

definition getImageMetadata_try :: "metadata_json json_text promise \<Rightarrow> js_error + metadata_json" where
  "getImageMetadata_try response =
     (case response of
        Rejected e \<Rightarrow> Inl e
      | Resolved (SyntaxError e) \<Rightarrow> Inl e
      | Resolved (Parsed j) \<Rightarrow> Inr j)"

definition getImageMetadata :: "metadata_json json_text promise \<Rightarrow> string \<Rightarrow> js_error + metadata_json" where
  "getImageMetadata response prompt =
     (case getImageMetadata_try response of
        Inr j \<Rightarrow> Inr j
      | Inl error \<Rightarrow> Inr (MetaValue (Some (take 50 prompt)) (Some ''Other'')))"

text \<open>
  \<^verbatim>\<open>saveImageToDatabase\<close> is launched and not awaited. It issues the classifier's call at once;
  the post follows when that call has settled. The model logs both at the launch. Destructuring
  \<^verbatim>\<open>null\<close> throws inside the function's own \<^verbatim>\<open>try\<close>, and nothing is posted.
\<close>

definition saveImageToDatabase :: "env \<Rightarrow> nat \<Rightarrow> string \<Rightarrow> string \<Rightarrow> string \<Rightarrow> string \<Rightarrow> app \<Rightarrow> app" where
  "saveImageToDatabase env i base64 prompt model captionText s =
     (let s1 = s\<lparr>calls := calls s @ [MetadataCall prompt]\<rparr> in
      case getImageMetadata (metadataOutcome env i) prompt of
        Inl e \<Rightarrow> s1
      | Inr MetaNull \<Rightarrow> s1
      | Inr (MetaValue t c) \<Rightarrow>
          s1\<lparr>calls := calls s1 @
            [DatabasePost \<lparr>payload_title = t, payload_prompt = prompt, payload_category = c,
               payload_model = model, payload_caption = captionText, payload_imageData = base64\<rparr>]\<rparr>)"

section \<open>Captions and rendering\<close>

definition generateCaption :: "env \<Rightarrow> nat \<Rightarrow> string \<Rightarrow> string \<Rightarrow> app \<Rightarrow> (js_error + string) \<times> app" where
  "generateCaption env i base64ImageData imagePrompt s =
     (case captionOutcome env i of
        Rejected e \<Rightarrow> (Inl e, s\<lparr>calls := calls s @ [CaptionCall base64ImageData imagePrompt]\<rparr>)
      | Resolved t \<Rightarrow> (Inr t, s\<lparr>calls := calls s @ [CaptionCall base64ImageData imagePrompt]\<rparr>))"

text \<open>The array \<^verbatim>\<open>placeholders\<close>: the containers of the gallery, which the run mutates in place.\<close>

definition placeholders :: "app \<Rightarrow> container list" where
  "placeholders s = (case imageGallery s of Containers cs \<Rightarrow> cs | InnerHTML _ \<Rightarrow> [])"

definition set_placeholder :: "nat \<Rightarrow> container \<Rightarrow> app \<Rightarrow> app" where
  "set_placeholder i c s =
     (case imageGallery s of
        Containers cs \<Rightarrow> s\<lparr>imageGallery := Containers (cs[i := c])\<rparr>
      | InnerHTML _ \<Rightarrow> s)"

text \<open>
  \<^verbatim>\<open>populateImageContainer\<close> on \<^verbatim>\<open>placeholders[i]\<close>. The first use of the container is
  \<^verbatim>\<open>container.append\<close>, which throws when the index is out of range. A truthy
  \<^verbatim>\<open>pregeneratedCaption\<close> is shown as it is; otherwise the caption is requested when the image
  has loaded.
\<close>

definition populateImageContainer :: "env \<Rightarrow> GeneratedImage \<Rightarrow> nat \<Rightarrow> string \<Rightarrow> string \<Rightarrow> app \<Rightarrow> (js_error + unit) \<times> app" where
  "populateImageContainer env imageData i imagePrompt pregeneratedCaption s =
     (if i < length (placeholders s) then
        (if pregeneratedCaption \<noteq> [] then
           (if imgComplete env i
            then (Inr (), set_placeholder i
                   (Populated (imageBytes imageData) imagePrompt pregeneratedCaption False NoHandler) s)
            else (Inr (), set_placeholder i
                   (Populated (imageBytes imageData) imagePrompt pregeneratedCaption True FinishLoading) s))
         else (Inr (), set_placeholder i
                 (Populated (imageBytes imageData) imagePrompt ''Generating caption...'' True CaptionThenFinish) s))
      else (Inl (typeErrorMessage env ''append''), s))"

text \<open>The \<^verbatim>\<open>load\<close> event of the image in slot \<open>i\<close>, given how the deferred caption call settles.\<close>

definition img_onload :: "string promise \<Rightarrow> nat \<Rightarrow> app \<Rightarrow> app" where
  "img_onload captionResult i s =
     (if i < length (placeholders s) then
        (case placeholders s ! i of
           Populated b a c l FinishLoading \<Rightarrow> set_placeholder i (Populated b a c False FinishLoading) s
         | Populated b a c l CaptionThenFinish \<Rightarrow>
             (let s1 = s\<lparr>calls := calls s @ [CaptionCall b a]\<rparr> in
              case captionResult of
                Resolved captionText \<Rightarrow> set_placeholder i (Populated b a captionText False CaptionThenFinish) s1
              | Rejected e \<Rightarrow>
                  set_placeholder i (Populated b a ''Could not generate caption.'' False CaptionThenFinish) s1)
         | _ \<Rightarrow> s)
      else s)"


section \<open>The Prompt Diversifier\<close>

definition diverse_failure_message :: js_error where
  "diverse_failure_message = ''Failed to generate a valid set of diverse prompts.''"

text \<open>
  \<^verbatim>\<open>getDiversePrompts\<close>: the call, \<^verbatim>\<open>JSON.parse\<close>, then the only check of the answer,
  \<^verbatim>\<open>result.prompts && Array.isArray(result.prompts) && result.prompts.length > 0\<close>.
  What the function returns or throws depends on how its call settles alone. Reading
  \<^verbatim>\<open>prompts\<close> of a parsed \<^verbatim>\<open>null\<close> throws the engine's TypeError.
\<close>

definition diverse_result :: "env \<Rightarrow> js_error + string list" where
  "diverse_result env =
     (case diverseOutcome env of
        Rejected e \<Rightarrow> Inl e
      | Resolved (SyntaxError e) \<Rightarrow> Inl e
      | Resolved (Parsed DiverseNull) \<Rightarrow> Inl (typeErrorMessage env ''prompts'')
      | Resolved (Parsed (DiverseValue (PromptArray ps))) \<Rightarrow>
          (if length ps > 0 then Inr ps else Inl diverse_failure_message)
      | Resolved (Parsed (DiverseValue _)) \<Rightarrow> Inl diverse_failure_message)"

definition getDiversePrompts :: "env \<Rightarrow> string \<Rightarrow> int option \<Rightarrow> app \<Rightarrow> (js_error + string list) \<times> app" where
  "getDiversePrompts env basePrompt count s =
     (diverse_result env,
      s\<lparr>calls := calls s @ [DiversePromptsCall basePrompt count]\<rparr>)"

section \<open>The sequential multimodal path\<close>

text \<open>\<^verbatim>\<open>a || b\<close> on an optional string: \<^verbatim>\<open>undefined\<close> and the empty string are falsy.\<close>

definition truthy :: "string option \<Rightarrow> bool" where
  "truthy a = (case a of None \<Rightarrow> False | Some t \<Rightarrow> t \<noteq> [])"

definition or_else :: "string option \<Rightarrow> string \<Rightarrow> string" where
  "or_else a b = (case a of None \<Rightarrow> b | Some t \<Rightarrow> if t \<noteq> [] then t else b)"

text \<open>
  The body of the loop over the parts:
  \<^verbatim>\<open>if (part.text) captionText = part.text; else if (part.inlineData) imageBase64 = part.inlineData.data;\<close>
\<close>

definition scan_part :: "Part \<Rightarrow> string option \<times> string \<Rightarrow> string option \<times> string" where
  "scan_part part acc =
     (case acc of (imageBase64, captionText) \<Rightarrow>
        if truthy (part_text part) then (imageBase64, or_else (part_text part) captionText)
        else (case inlineData part of
                Some b \<Rightarrow> (Some (blob_data b), captionText)
              | None \<Rightarrow> (imageBase64, captionText)))"

definition scan_parts :: "Part list option \<Rightarrow> string option \<times> string" where
  "scan_parts parts =
     (case parts of
        None \<Rightarrow> (None, ''Caption not available.'')
      | Some ps \<Rightarrow> fold scan_part ps (None, ''Caption not available.''))"

text \<open>\<^verbatim>\<open>parts.find(p => p.inlineData)?.inlineData?.mimeType || 'image/png'\<close>\<close>

definition found_mimeType :: "Part list option \<Rightarrow> string" where
  "found_mimeType parts =
     (case parts of
        None \<Rightarrow> ''image/png''
      | Some ps \<Rightarrow>
          (case find (\<lambda>p. inlineData p \<noteq> None) ps of
             None \<Rightarrow> ''image/png''
           | Some p \<Rightarrow>
               (case inlineData p of
                  None \<Rightarrow> ''image/png''
                | Some b \<Rightarrow> or_else (blob_mimeType b) ''image/png'')))"

definition response_parts :: "env \<Rightarrow> candidates \<Rightarrow> js_error + Part list option" where
  "response_parts env response =
     (case response of
        NoCandidate \<Rightarrow> Inr None
      | NoContent \<Rightarrow> Inl (typeErrorMessage env ''parts'')
      | Content ps \<Rightarrow> Inr ps)"

definition no_image_message :: js_error where
  "no_image_message = ''Model did not return an image for this prompt.''"

definition failure_text :: "string \<Rightarrow> string" where
  "failure_text currentPrompt =
     ''Failed to generate image for prompt: '' @ [CHR 0x22] @ currentPrompt @ [CHR 0x22]"

text \<open>The inner \<^verbatim>\<open>try\<close> block of one iteration.\<close>

definition gemini_try :: "env \<Rightarrow> string \<Rightarrow> nat \<Rightarrow> string \<Rightarrow> app \<Rightarrow> (js_error + unit) \<times> app" where
  "gemini_try env model i currentPrompt s =
     (let s1 = s\<lparr>calls := calls s @ [ContentImageCall currentPrompt]\<rparr> in
      case contentOutcome env i of
        Rejected e \<Rightarrow> (Inl e, s1)
      | Resolved response \<Rightarrow>
          (case response_parts env response of
             Inl e \<Rightarrow> (Inl e, s1)
           | Inr parts \<Rightarrow>
               (case scan_parts parts of
                  (None, captionText) \<Rightarrow> (Inl no_image_message, s1)
                | (Some base64, captionText) \<Rightarrow>
                    if base64 \<noteq> [] then
                      (let imageData = \<lparr>imageBytes = base64, mimeType = found_mimeType parts\<rparr>;
                           s2 = s1\<lparr>allGeneratedImages := allGeneratedImages s1 @ [imageData]\<rparr>
                       in case populateImageContainer env imageData i currentPrompt captionText s2 of
                            (Inl e, s3) \<Rightarrow> (Inl e, s3)
                          | (Inr u, s3) \<Rightarrow>
                              (Inr (), saveImageToDatabase env i base64 currentPrompt model captionText s3))
                    else (Inl no_image_message, s1))))"

text \<open>One iteration: the progress, the \<^verbatim>\<open>try\<close> block, and the \<^verbatim>\<open>catch\<close> that marks the slot.\<close>

definition gemini_iteration :: "env \<Rightarrow> string \<Rightarrow> nat \<Rightarrow> nat \<Rightarrow> string \<Rightarrow> app \<Rightarrow> app" where
  "gemini_iteration env model n i currentPrompt s =
     (case gemini_try env model i currentPrompt (updateProgress (i + 1) n s) of
        (Inr u, s1) \<Rightarrow> s1
      | (Inl e, s1) \<Rightarrow>
          (if i < length (placeholders s1)
           then set_placeholder i (FailureNote (failure_text currentPrompt)) s1
           else s1))"

fun gemini_loop :: "env \<Rightarrow> string \<Rightarrow> nat \<Rightarrow> nat \<Rightarrow> string list \<Rightarrow> app \<Rightarrow> app" where
  "gemini_loop env model n i [] s = s"
| "gemini_loop env model n i (currentPrompt # rest) s =
     gemini_loop env model n (Suc i) rest (gemini_iteration env model n i currentPrompt s)"

text \<open>
  \<^verbatim>\<open>Array(numberOfImages).fill(prompt)\<close>: a RangeError on \<^verbatim>\<open>NaN\<close>, on a negative length and
  on a length above \<open>2^32 - 1\<close>.
\<close>

definition Array_fill :: "env \<Rightarrow> int option \<Rightarrow> 'a \<Rightarrow> js_error + 'a list" where
  "Array_fill env n v =
     (case n of
        None \<Rightarrow> Inl (rangeErrorMessage env)
      | Some c \<Rightarrow>
          (if c < 0 \<or> 4294967295 < c then Inl (rangeErrorMessage env)
           else Inr (replicate (nat c) v)))"

text \<open>\<^verbatim>\<open>numberOfImages > 1\<close>, false on \<^verbatim>\<open>NaN\<close>.\<close>

definition more_than_one :: "int option \<Rightarrow> bool" where
  "more_than_one n = (case n of None \<Rightarrow> False | Some c \<Rightarrow> 1 < c)"

definition diverse_label :: progress where
  "diverse_label = Indeterminate ''Generating diverse prompts...''"

definition gemini_path :: "env \<Rightarrow> request \<Rightarrow> app \<Rightarrow> (js_error + unit) \<times> app" where
  "gemini_path env req s =
     (case (if diverseSubjects req \<and> more_than_one (numberOfImages req)
            then getDiversePrompts env (promptInput req) (numberOfImages req)
                   (showIndeterminateProgress diverse_label s)
            else (Array_fill env (numberOfImages req) (promptInput req), s)) of
        (Inl e, s1) \<Rightarrow> (Inl e, s1)
      | (Inr promptsToGenerate, s1) \<Rightarrow>
          (Inr (), gemini_loop env (selectedModel req) (length promptsToGenerate) 0 promptsToGenerate s1))"

section \<open>The bulk image path\<close>

text \<open>
  \<^verbatim>\<open>generateAndProcessImage\<close>: the awaited call is not inside a \<^verbatim>\<open>try\<close>; only the caption
  call is. An empty answer marks the slot and returns \<^verbatim>\<open>null\<close>.
\<close>

definition generateAndProcessImage :: "env \<Rightarrow> string \<Rightarrow> nat \<Rightarrow> string \<Rightarrow> app \<Rightarrow> (js_error + GeneratedImage option) \<times> app" where
  "generateAndProcessImage env model i currentPrompt s =
     (let s1 = s\<lparr>calls := calls s @ [ImagesCall model currentPrompt (Some 1)]\<rparr> in
      case imagesOutcome env i of
        Rejected e \<Rightarrow> (Inl e, s1)
      | Resolved generatedImages \<Rightarrow>
          (case generatedImages of
             Some (imageData # others) \<Rightarrow>
               (case generateCaption env i (imageBytes imageData) currentPrompt s1 of (r, s2) \<Rightarrow>
                  (let captionText = (case r of Inr t \<Rightarrow> t | Inl e \<Rightarrow> ''Caption not available.'') in
                   case populateImageContainer env imageData i currentPrompt captionText s2 of
                     (Inl e, s3) \<Rightarrow> (Inl e, s3)
                   | (Inr u, s3) \<Rightarrow>
                       (Inr (Some imageData),
                        saveImageToDatabase env i (imageBytes imageData) currentPrompt model captionText s3)))
           | _ \<Rightarrow>
               (if i < length (placeholders s1)
                then (Inr None, set_placeholder i (FailureNote (failure_text currentPrompt)) s1)
                else (Inl (typeErrorMessage env ''innerHTML''), s1))))"

fun imagen_loop :: "env \<Rightarrow> string \<Rightarrow> nat \<Rightarrow> nat \<Rightarrow> string list \<Rightarrow> app \<Rightarrow> (js_error + unit) \<times> app" where
  "imagen_loop env model n i [] s = (Inr (), s)"
| "imagen_loop env model n i (currentPrompt # rest) s =
     (case generateAndProcessImage env model i currentPrompt (updateProgress (i + 1) n s) of
        (Inl e, s1) \<Rightarrow> (Inl e, s1)
      | (Inr None, s1) \<Rightarrow> imagen_loop env model n (Suc i) rest s1
      | (Inr (Some generated), s1) \<Rightarrow>
          imagen_loop env model n (Suc i) rest
            (s1\<lparr>allGeneratedImages := allGeneratedImages s1 @ [generated]\<rparr>))"

text \<open>The loop over the images of the single batched answer.\<close>

fun batch_loop :: "env \<Rightarrow> string \<Rightarrow> string \<Rightarrow> nat \<Rightarrow> GeneratedImage list \<Rightarrow> app \<Rightarrow> (js_error + unit) \<times> app" where
  "batch_loop env model prompt i [] s = (Inr (), s)"
| "batch_loop env model prompt i (imageData # rest) s =
     (case generateCaption env i (imageBytes imageData) prompt s of (r, s1) \<Rightarrow>
        (let captionText = (case r of Inr t \<Rightarrow> t | Inl e \<Rightarrow> ''Caption not available.'') in
         case populateImageContainer env imageData i prompt captionText s1 of
           (Inl e, s2) \<Rightarrow> (Inl e, s2)
         | (Inr u, s2) \<Rightarrow>
             batch_loop env model prompt (Suc i) rest
               (saveImageToDatabase env i (imageBytes imageData) prompt model captionText s2)))"

definition imagen_path :: "env \<Rightarrow> request \<Rightarrow> app \<Rightarrow> (js_error + unit) \<times> app" where
  "imagen_path env req s =
     (if diverseSubjects req then
        (case getDiversePrompts env (promptInput req) (numberOfImages req)
                (showIndeterminateProgress diverse_label s) of
           (Inl e, s1) \<Rightarrow> (Inl e, s1)
         | (Inr diversePrompts, s1) \<Rightarrow>
             imagen_loop env (selectedModel req) (length diversePrompts) 0 diversePrompts s1)
      else
        (let s1 = showIndeterminateProgress (IndeterminateCount (numberOfImages req)) s;
             s2 = s1\<lparr>calls := calls s1 @ [ImagesCall (selectedModel req) (promptInput req) (numberOfImages req)]\<rparr>
         in case batchOutcome env of
              Rejected e \<Rightarrow> (Inl e, s2)
            | Resolved generatedImages \<Rightarrow>
                (case generatedImages of
                   Some (g # gs) \<Rightarrow>
                     batch_loop env (selectedModel req) (promptInput req) 0 (g # gs)
                       (s2\<lparr>allGeneratedImages := g # gs\<rparr>)
                 | _ \<Rightarrow>
                     (Inr (), s2\<lparr>imageGallery :=
                        Containers (map (\<lambda>p. FailureNote ''Failed to generate images.'') (placeholders s2))\<rparr>))))"

section \<open>The orchestrator\<close>

definition no_results_message :: string where
  "no_results_message = ''Image generation failed to produce results. Please try a different prompt.''"

definition run_failed_message :: string where
  "run_failed_message = ''Image generation failed. Please check the console and try again.''"

text \<open>The last statement of the \<^verbatim>\<open>try\<close> block: the history entry, the totals, the download button.\<close>

definition finalize :: "env \<Rightarrow> request \<Rightarrow> app \<Rightarrow> app" where
  "finalize env req s =
     (case allGeneratedImages s of
        first # others \<Rightarrow>
          (let s1 = addToHistory (setItemOk env) (now_id env) (now_timestamp env)
                      (promptInput req) (selectedModel req) first s;
               s2 = s1\<lparr>totalGeneratedCount := totalGeneratedCount s1 + length (allGeneratedImages s1)\<rparr>;
               s3 = updateUiCounts (length (allGeneratedImages s2)) s2
           in s3\<lparr>downloadHidden := False\<rparr>)
      | [] \<Rightarrow> s\<lparr>imageGallery := InnerHTML no_results_message\<rparr>)"

text \<open>The branch on the selected model, up to the end of the loops.\<close>

definition generation_phase :: "env \<Rightarrow> request \<Rightarrow> app \<Rightarrow> (js_error + unit) \<times> app" where
  "generation_phase env req s =
     (if selectedModel req = ''gemini-2.5-flash-image-preview''
      then gemini_path env req s else imagen_path env req s)"

text \<open>The \<^verbatim>\<open>try\<close> block: an exception of the generation phase skips the last statement.\<close>

definition generateImages_try :: "env \<Rightarrow> request \<Rightarrow> app \<Rightarrow> (js_error + unit) \<times> app" where
  "generateImages_try env req s =
     (case generation_phase env req s of
        (Inl e, s1) \<Rightarrow> (Inl e, s1)
      | (Inr u, s1) \<Rightarrow> (Inr (), finalize env req s1))"

text \<open>The loop \<^verbatim>\<open>for (let i = 0; i < numberOfImages; i++)\<close> runs this many times.\<close>

definition placeholder_count :: "int option \<Rightarrow> nat" where
  "placeholder_count n = (case n of None \<Rightarrow> 0 | Some c \<Rightarrow> if 0 < c then nat c else 0)"

text \<open>
  The statements between the validation and the \<^verbatim>\<open>try\<close> block: the button, the cleared
  gallery, the hidden download button and error, the counts, the placeholders and the empty
  \<^verbatim>\<open>allGeneratedImages\<close>. A cleared gallery is \<open>Containers []\<close>.
\<close>

definition prepare :: "request \<Rightarrow> app \<Rightarrow> app" where
  "prepare req s =
     (let s1 = s\<lparr>buttonText := ''Generating...'', buttonDisabled := True,
                 imageGallery := Containers [], downloadHidden := True\<rparr>;
          s2 = updateUiCounts 0 (hideError s1)
      in s2\<lparr>imageGallery := Containers (replicate (placeholder_count (numberOfImages req)) Placeholder),
             allGeneratedImages := []\<rparr>)"

text \<open>
  \<^verbatim>\<open>generateImages\<close>. An empty prompt returns before the \<^verbatim>\<open>try\<close> statement, so neither the
  \<^verbatim>\<open>catch\<close> nor the \<^verbatim>\<open>finally\<close> block runs.
\<close>

definition generateImages :: "env \<Rightarrow> request \<Rightarrow> app \<Rightarrow> app" where
  "generateImages env req s =
     (if promptInput req = [] then displayError ''Please enter a prompt.'' s
      else
        (case generateImages_try env req (prepare req s) of
           (r, s4) \<Rightarrow>
             (let s5 = (case r of
                          Inr u \<Rightarrow> s4
                        | Inl e \<Rightarrow>
                            (displayError (if e \<noteq> [] then e else ''Could not generate images.'') s4)
                              \<lparr>imageGallery := InnerHTML run_failed_message\<rparr>)
              in hideProgress (s5\<lparr>buttonText := buttonText s, buttonDisabled := False\<rparr>))))"

section \<open>Auxiliary notions\<close>

text \<open>The fields that only the first and the last statements of a run write.\<close>

definition untouched :: "app \<Rightarrow> app \<Rightarrow> bool" where
  "untouched s s' \<longleftrightarrow>
     totalGeneratedCount s' = totalGeneratedCount s \<and> generationHistory s' = generationHistory s \<and>
     stored_history s' = stored_history s \<and> errorMessage s' = errorMessage s \<and>
     errorHidden s' = errorHidden s \<and> downloadHidden s' = downloadHidden s \<and>
     galleryCountSpan s' = galleryCountSpan s \<and> totalGeneratedCountSpan s' = totalGeneratedCountSpan s \<and>
     buttonText s' = buttonText s \<and> buttonDisabled s' = buttonDisabled s"

text \<open>The gallery still holds the containers of the run.\<close>

definition has_containers :: "app \<Rightarrow> bool" where
  "has_containers s \<longleftrightarrow> imageGallery s = Containers (placeholders s)"

text \<open>
  What the loop over the parts of a response leaves in its two variables: a part with a
  truthy text is a text part whatever else it carries; a part without one that has inline
  data is an image part. Each assignment overwrites the one before.
\<close>

definition image_parts :: "Part list \<Rightarrow> Part list" where
  "image_parts ps = filter (\<lambda>p. \<not> truthy (part_text p) \<and> inlineData p \<noteq> None) ps"

definition text_parts :: "Part list \<Rightarrow> Part list" where
  "text_parts ps = filter (\<lambda>p. truthy (part_text p)) ps"

definition last_image :: "Part list \<Rightarrow> string option" where
  "last_image ps =
     (if image_parts ps = [] then None
      else map_option blob_data (inlineData (last (image_parts ps))))"

definition last_caption :: "Part list \<Rightarrow> string" where
  "last_caption ps =
     (if text_parts ps = [] then ''Caption not available.''
      else or_else (part_text (last (text_parts ps))) ''Caption not available.'')"

text \<open>
  The image of the unit at an index when its generation call yields one: on the multimodal
  path what the scan of the response keeps, on the bulk path the first image of the answer.
\<close>

definition gemini_image :: "env \<Rightarrow> nat \<Rightarrow> GeneratedImage option" where
  "gemini_image env i =
     (case contentOutcome env i of
        Rejected e \<Rightarrow> None
      | Resolved response \<Rightarrow>
          (case response_parts env response of
             Inl e \<Rightarrow> None
           | Inr parts \<Rightarrow>
               (case scan_parts parts of
                  (None, captionText) \<Rightarrow> None
                | (Some base64, captionText) \<Rightarrow>
                    if base64 \<noteq> [] then Some \<lparr>imageBytes = base64, mimeType = found_mimeType parts\<rparr>
                    else None)))"

text \<open>
  Every launch of the persister issues the classifier's call first, so these calls count the
  launches.
\<close>

definition is_metadata_call :: "api_call \<Rightarrow> bool" where
  "is_metadata_call c = (case c of MetadataCall p \<Rightarrow> True | _ \<Rightarrow> False)"

definition persister_launches :: "app \<Rightarrow> nat" where
  "persister_launches s = length (filter is_metadata_call (calls s))"

definition imagen_image :: "env \<Rightarrow> nat \<Rightarrow> GeneratedImage option" where
  "imagen_image env i =
     (case imagesOutcome env i of
        Rejected e \<Rightarrow> None
      | Resolved None \<Rightarrow> None
      | Resolved (Some []) \<Rightarrow> None
      | Resolved (Some (g # gs)) \<Rightarrow> Some g)"

text \<open>
  The images of the units of a run whose generation succeeded, in index order: one unit per
  planned prompt on the paths that generate image by image, one unit per returned image on
  the batched path.
\<close>

definition unit_images :: "env \<Rightarrow> request \<Rightarrow> GeneratedImage list" where
  "unit_images env req =
     (if selectedModel req = ''gemini-2.5-flash-image-preview'' then
        (case (if diverseSubjects req \<and> more_than_one (numberOfImages req)
               then diverse_result env
               else Array_fill env (numberOfImages req) (promptInput req)) of
           Inl e \<Rightarrow> []
         | Inr ps \<Rightarrow> List.map_filter (gemini_image env) [0..<length ps])
      else if diverseSubjects req then
        (case diverse_result env of
           Inl e \<Rightarrow> []
         | Inr ps \<Rightarrow> List.map_filter (imagen_image env) [0..<length ps])
      else
        (case batchOutcome env of
           Resolved (Some gs) \<Rightarrow> gs
         | _ \<Rightarrow> []))"

text \<open>
  The life of a ledger: runs of \<^verbatim>\<open>generateImages\<close>, clicks on the clear button (with whether
  the storage accepts the write) and reloads of the page, which call \<^verbatim>\<open>loadHistory\<close>. The
  clock readings of the runs are the timestamps they would record. A ledger is in order when
  every entry is at least as recent as the ones after it; \<open>ledger_ok t\<close> says so of the
  ledger in memory and of the stored one, none of whose entries is later than \<open>t\<close>.
\<close>

datatype event = Generate env request | Clear bool | Reload

fun play :: "event list \<Rightarrow> app \<Rightarrow> app" where
  "play [] s = s"
| "play (Generate env req # evs) s = play evs (generateImages env req s)"
| "play (Clear ok # evs) s = play evs (clearHistory ok s)"
| "play (Reload # evs) s = play evs (loadHistory s)"

fun event_times :: "event list \<Rightarrow> int list" where
  "event_times [] = []"
| "event_times (Generate env req # evs) = now_timestamp env # event_times evs"
| "event_times (Clear ok # evs) = event_times evs"
| "event_times (Reload # evs) = event_times evs"

definition most_recent_first :: "HistoryItem list \<Rightarrow> bool" where
  "most_recent_first items \<longleftrightarrow> sorted_wrt (\<lambda>a b. timestamp b \<le> timestamp a) items"

definition not_after :: "int \<Rightarrow> HistoryItem list \<Rightarrow> bool" where
  "not_after t items \<longleftrightarrow> (\<forall>h \<in> set items. timestamp h \<le> t)"

definition ledger_ok :: "int \<Rightarrow> app \<Rightarrow> bool" where
  "ledger_ok t s \<longleftrightarrow>
     most_recent_first (generationHistory s) \<and> not_after t (generationHistory s) \<and>
     (case stored_history s of
        Some (HistoryJson items) \<Rightarrow> most_recent_first items \<and> not_after t items
      | _ \<Rightarrow> True)"

text \<open>The calls that ask a model for images, among the calls logged.\<close>

definition is_generation_call :: "api_call \<Rightarrow> bool" where
  "is_generation_call c =
     (case c of ContentImageCall p \<Rightarrow> True | ImagesCall m p n \<Rightarrow> True | _ \<Rightarrow> False)"

definition generation_calls :: "app \<Rightarrow> api_call list" where
  "generation_calls s = filter is_generation_call (calls s)"

text \<open>
  On the bulk path with diversification the units are attempted in index order until one
  throws. The unit at an index throws when its call is rejected, and also when the gallery
  has no slot at that index, whatever the call answers. \<open>units_attempted env slots i n\<close>
  counts the units attempted among the \<open>n\<close> units from index \<open>i\<close> on, the throwing one
  included.
\<close>

definition bulk_unit_throws :: "env \<Rightarrow> nat \<Rightarrow> nat \<Rightarrow> bool" where
  "bulk_unit_throws env slots i \<longleftrightarrow>
     (case imagesOutcome env i of Rejected e \<Rightarrow> True | Resolved answer \<Rightarrow> slots \<le> i)"

fun units_attempted :: "env \<Rightarrow> nat \<Rightarrow> nat \<Rightarrow> nat \<Rightarrow> nat" where
  "units_attempted env slots i 0 = 0"
| "units_attempted env slots i (Suc n) =
     (if bulk_unit_throws env slots i then 1 else Suc (units_attempted env slots (Suc i) n))"


section \<open>Scenarios\<close>

text \<open>The page as \<^verbatim>\<open>initializeApp\<close> leaves it when \<^verbatim>\<open>localStorage\<close> is empty.\<close>

definition fresh_page :: app where
  "fresh_page =
     \<lparr>totalGeneratedCount = 0, generationHistory = [], stored_history = None,
      imageGallery = InnerHTML ''Your generated images will appear here.'',
      allGeneratedImages = [], errorMessage = [], errorHidden = True, downloadHidden = True,
      galleryCountSpan = 0, totalGeneratedCountSpan = 0, progressState = Hidden,
      buttonText = ''Generate'', buttonDisabled = False, calls = []\<rparr>"

text \<open>An environment in which every backing call is rejected.\<close>

definition offline :: env where
  "offline =
     \<lparr>diverseOutcome = Rejected ''offline'', contentOutcome = (\<lambda>i. Rejected ''offline''),
      imagesOutcome = (\<lambda>i. Rejected ''offline''), batchOutcome = Rejected ''offline'',
      captionOutcome = (\<lambda>i. Rejected ''offline''), metadataOutcome = (\<lambda>i. Rejected ''offline''),
      imgComplete = (\<lambda>i. False), setItemOk = True, now_id = 1000, now_timestamp = 1000,
      typeErrorMessage = (\<lambda>property. ''Cannot read properties of undefined''),
      rangeErrorMessage = ''Invalid array length''\<rparr>"

text \<open>A response of four parts, text and image interleaved.\<close>

definition interleaved_parts :: "Part list" where
  "interleaved_parts =
     [\<lparr>part_text = Some ''first'', inlineData = None\<rparr>,
      \<lparr>part_text = None, inlineData = Some \<lparr>blob_data = ''A'', blob_mimeType = Some ''image/png''\<rparr>\<rparr>,
      \<lparr>part_text = Some ''second'', inlineData = None\<rparr>,
      \<lparr>part_text = None, inlineData = Some \<lparr>blob_data = ''B'', blob_mimeType = Some ''image/png''\<rparr>\<rparr>]"

text \<open>
  An environment for the scenarios below: the diversifier answers with two prompts; every
  multimodal call answers with the interleaved parts; the single-image call of the bulk model
  is rejected for the unit at index 0 and answers with one image elsewhere; the batched call
  answers with two images; every caption and classifier call is rejected.
\<close>

definition scenario_env :: env where
  "scenario_env =
     \<lparr>diverseOutcome = Resolved (Parsed (DiverseValue (PromptArray [''city at dawn'', ''city at night'']))),
      contentOutcome = (\<lambda>i. Resolved (Content (Some interleaved_parts))),
      imagesOutcome = (\<lambda>i. if i = 0 then Rejected ''quota exceeded''
                          else Resolved (Some [\<lparr>imageBytes = ''C'', mimeType = ''image/png''\<rparr>])),
      batchOutcome = Resolved (Some [\<lparr>imageBytes = ''D'', mimeType = ''image/png''\<rparr>,
                                      \<lparr>imageBytes = ''E'', mimeType = ''image/png''\<rparr>]),
      captionOutcome = (\<lambda>i. Rejected ''caption service down''),
      metadataOutcome = (\<lambda>i. Rejected ''classifier down''),
      imgComplete = (\<lambda>i. False), setItemOk = True, now_id = 1000, now_timestamp = 1001,
      typeErrorMessage = (\<lambda>property. ''Cannot read properties of undefined''),
      rangeErrorMessage = ''Invalid array length''\<rparr>"

text \<open>The same environment at a later reading of the clock.\<close>

definition later_env :: env where
  "later_env = scenario_env\<lparr>now_id := 2000, now_timestamp := 2001\<rparr>"

definition one_fox :: request where
  "one_fox = \<lparr>promptInput = ''a red fox'', numberOfImages = Some 1,
               selectedModel = ''gemini-2.5-flash-image-preview'', diverseSubjects = False\<rparr>"

text \<open>Diversified requests: three images on the multimodal path, two on the bulk path.\<close>

definition three_cities :: request where
  "three_cities = \<lparr>promptInput = ''city'', numberOfImages = Some 3,
                    selectedModel = ''gemini-2.5-flash-image-preview'', diverseSubjects = True\<rparr>"

definition two_cities :: request where
  "two_cities = \<lparr>promptInput = ''city'', numberOfImages = Some 2,
                  selectedModel = ''imagen-4.0-generate-001'', diverseSubjects = True\<rparr>"

text \<open>The scenario environment with no rejected single-image call.\<close>

definition steady_env :: env where
  "steady_env = scenario_env\<lparr>imagesOutcome :=
     \<lambda>i. Resolved (Some [\<lparr>imageBytes = ''C'', mimeType = ''image/png''\<rparr>])\<rparr>"

section \<open>What each step leaves alone\<close>

lemma untouched_refl [simp]: "untouched s s"
  by (simp add: untouched_def)

lemma untouched_trans: "untouched s s1 \<Longrightarrow> untouched s1 s2 \<Longrightarrow> untouched s s2"
  by (simp add: untouched_def)

lemma placeholders_update [simp]:
  "placeholders (s\<lparr>calls := c\<rparr>) = placeholders s"
  "placeholders (s\<lparr>allGeneratedImages := a\<rparr>) = placeholders s"
  "placeholders (s\<lparr>progressState := p\<rparr>) = placeholders s"
  "placeholders (s\<lparr>imageGallery := Containers cs\<rparr>) = cs"
  by (simp_all add: placeholders_def)

lemma has_containers_update [simp]:
  "has_containers (s\<lparr>calls := c\<rparr>) = has_containers s"
  "has_containers (s\<lparr>allGeneratedImages := a\<rparr>) = has_containers s"
  "has_containers (s\<lparr>progressState := p\<rparr>) = has_containers s"
  "has_containers (s\<lparr>imageGallery := Containers cs\<rparr>)"
  by (simp_all add: has_containers_def placeholders_def)

lemma untouched_update [simp]:
  "untouched s (s'\<lparr>calls := c\<rparr>) = untouched s s'"
  "untouched s (s'\<lparr>allGeneratedImages := a\<rparr>) = untouched s s'"
  "untouched s (s'\<lparr>progressState := p\<rparr>) = untouched s s'"
  "untouched s (s'\<lparr>imageGallery := g\<rparr>) = untouched s s'"
  by (simp_all add: untouched_def)

lemma set_placeholder_simps [simp]:
  "placeholders (set_placeholder i c s) = (placeholders s)[i := c]"
  "has_containers (set_placeholder i c s) = has_containers s"
  "untouched s0 (set_placeholder i c s) = untouched s0 s"
  "calls (set_placeholder i c s) = calls s"
  "allGeneratedImages (set_placeholder i c s) = allGeneratedImages s"
  "progressState (set_placeholder i c s) = progressState s"
  by (auto simp add: set_placeholder_def placeholders_def has_containers_def untouched_def split: gallery.splits)

lemma updateProgress_simps [simp]:
  "placeholders (updateProgress a b s) = placeholders s"
  "has_containers (updateProgress a b s) = has_containers s"
  "untouched s0 (updateProgress a b s) = untouched s0 s"
  "calls (updateProgress a b s) = calls s"
  "allGeneratedImages (updateProgress a b s) = allGeneratedImages s"
  by (simp_all add: updateProgress_def)

lemma showIndeterminateProgress_simps [simp]:
  "placeholders (showIndeterminateProgress m s) = placeholders s"
  "has_containers (showIndeterminateProgress m s) = has_containers s"
  "untouched s0 (showIndeterminateProgress m s) = untouched s0 s"
  "calls (showIndeterminateProgress m s) = calls s"
  "allGeneratedImages (showIndeterminateProgress m s) = allGeneratedImages s"
  by (simp_all add: showIndeterminateProgress_def)

lemma saveImageToDatabase_simps [simp]:
  "placeholders (saveImageToDatabase env i b p m c s) = placeholders s"
  "has_containers (saveImageToDatabase env i b p m c s) = has_containers s"
  "untouched s0 (saveImageToDatabase env i b p m c s) = untouched s0 s"
  "allGeneratedImages (saveImageToDatabase env i b p m c s) = allGeneratedImages s"
  "progressState (saveImageToDatabase env i b p m c s) = progressState s"
  by (simp_all add: saveImageToDatabase_def Let_def split: sum.splits metadata_json.splits)

lemma generateCaption_simps [simp]:
  "placeholders (snd (generateCaption env i b p s)) = placeholders s"
  "has_containers (snd (generateCaption env i b p s)) = has_containers s"
  "untouched s0 (snd (generateCaption env i b p s)) = untouched s0 s"
  "allGeneratedImages (snd (generateCaption env i b p s)) = allGeneratedImages s"
  "progressState (snd (generateCaption env i b p s)) = progressState s"
  "calls (snd (generateCaption env i b p s)) = calls s @ [CaptionCall b p]"
  by (simp_all add: generateCaption_def split: promise.splits)

lemma populateImageContainer_simps [simp]:
  "has_containers (snd (populateImageContainer env g i p c s)) = has_containers s"
  "untouched s0 (snd (populateImageContainer env g i p c s)) = untouched s0 s"
  "allGeneratedImages (snd (populateImageContainer env g i p c s)) = allGeneratedImages s"
  "progressState (snd (populateImageContainer env g i p c s)) = progressState s"
  "calls (snd (populateImageContainer env g i p c s)) = calls s"
  "length (placeholders (snd (populateImageContainer env g i p c s))) = length (placeholders s)"
  by (simp_all add: populateImageContainer_def)


section \<open>The loops\<close>

lemma getDiversePrompts_simps [simp]:
  "fst (getDiversePrompts env p n s) = diverse_result env"
  "placeholders (snd (getDiversePrompts env p n s)) = placeholders s"
  "has_containers (snd (getDiversePrompts env p n s)) = has_containers s"
  "untouched s0 (snd (getDiversePrompts env p n s)) = untouched s0 s"
  "allGeneratedImages (snd (getDiversePrompts env p n s)) = allGeneratedImages s"
  "progressState (snd (getDiversePrompts env p n s)) = progressState s"
  "calls (snd (getDiversePrompts env p n s)) = calls s @ [DiversePromptsCall p n]"
  by (simp_all add: getDiversePrompts_def)

lemma diverse_result_Inr:
  "diverse_result env = Inr ps \<longleftrightarrow>
     diverseOutcome env = Resolved (Parsed (DiverseValue (PromptArray ps))) \<and> ps \<noteq> []"
  by (auto simp add: diverse_result_def
        split: promise.splits json_text.splits diverse_json.splits prompts_field.splits)

lemma gemini_try_simps [simp]:
  "has_containers (snd (gemini_try env m i p s)) = has_containers s"
  "untouched s0 (snd (gemini_try env m i p s)) = untouched s0 s"
  "progressState (snd (gemini_try env m i p s)) = progressState s"
  "length (placeholders (snd (gemini_try env m i p s))) = length (placeholders s)"
  by (auto simp add: gemini_try_def Let_def populateImageContainer_def
        split: promise.splits sum.splits prod.splits option.splits)

lemma gemini_try_images:
  "allGeneratedImages (snd (gemini_try env m i p s)) =
     allGeneratedImages s @ (case gemini_image env i of None \<Rightarrow> [] | Some g \<Rightarrow> [g])"
  by (auto simp add: gemini_try_def gemini_image_def Let_def populateImageContainer_def
        split: promise.splits sum.splits prod.splits option.splits)

lemma gemini_try_other_slots:
  "j \<noteq> i \<Longrightarrow> placeholders (snd (gemini_try env m i p s)) ! j = placeholders s ! j"
  by (auto simp add: gemini_try_def Let_def populateImageContainer_def
        split: promise.splits sum.splits prod.splits option.splits)

lemma gemini_iteration_alt:
  "gemini_iteration env m n i p s =
     (case fst (gemini_try env m i p (updateProgress (i + 1) n s)) of
        Inr u \<Rightarrow> snd (gemini_try env m i p (updateProgress (i + 1) n s))
      | Inl e \<Rightarrow>
          set_placeholder i (FailureNote (failure_text p))
            (snd (gemini_try env m i p (updateProgress (i + 1) n s))))"
  by (auto simp add: gemini_iteration_def set_placeholder_def placeholders_def not_less list_update_beyond
        split: prod.splits sum.splits gallery.splits)

lemma gemini_iteration_simps [simp]:
  "has_containers (gemini_iteration env m n i p s) = has_containers s"
  "untouched s0 (gemini_iteration env m n i p s) = untouched s0 s"
  "length (placeholders (gemini_iteration env m n i p s)) = length (placeholders s)"
  "allGeneratedImages (gemini_iteration env m n i p s) =
     allGeneratedImages s @ (case gemini_image env i of None \<Rightarrow> [] | Some g \<Rightarrow> [g])"
  by (simp_all add: gemini_iteration_alt gemini_try_images split: sum.splits)

lemma gemini_iteration_other_slots:
  "j \<noteq> i \<Longrightarrow> placeholders (gemini_iteration env m n i p s) ! j = placeholders s ! j"
  by (simp add: gemini_iteration_alt gemini_try_other_slots split: sum.splits)

lemma gemini_loop_simps [simp]:
  "has_containers (gemini_loop env m n i ps s) = has_containers s"
  "untouched s0 (gemini_loop env m n i ps s) = untouched s0 s"
  "length (placeholders (gemini_loop env m n i ps s)) = length (placeholders s)"
  by (induction ps arbitrary: i s; simp)+

lemma gemini_loop_images:
  "allGeneratedImages (gemini_loop env m n i ps s) =
     allGeneratedImages s @ List.map_filter (gemini_image env) [i..<i + length ps]"
proof (induction ps arbitrary: i s)
  case Nil
  show ?case by simp
next
  case (Cons p ps)
  have e: "[i..<i + length (p # ps)] = i # [Suc i..<Suc i + length ps]"
    using upt_conv_Cons [of i "i + Suc (length ps)"] by (simp del: upt_Suc)
  have "allGeneratedImages (gemini_loop env m n i (p # ps) s) =
      allGeneratedImages (gemini_iteration env m n i p s) @
        List.map_filter (gemini_image env) [Suc i..<Suc i + length ps]"
    by (simp only: gemini_loop.simps Cons.IH)
  also have "\<dots> = allGeneratedImages s @ List.map_filter (gemini_image env) (i # [Suc i..<Suc i + length ps])"
    by (simp del: upt_Suc split: option.splits)
  finally show ?case
    by (simp only: e)
qed


lemma generateAndProcessImage_simps [simp]:
  "has_containers (snd (generateAndProcessImage env m i p s)) = has_containers s"
  "untouched s0 (snd (generateAndProcessImage env m i p s)) = untouched s0 s"
  "length (placeholders (snd (generateAndProcessImage env m i p s))) = length (placeholders s)"
  "allGeneratedImages (snd (generateAndProcessImage env m i p s)) = allGeneratedImages s"
  by (auto simp add: generateAndProcessImage_def Let_def generateCaption_def populateImageContainer_def
        split: promise.splits sum.splits prod.splits option.splits list.splits)

lemma generateAndProcessImage_result:
  "fst (generateAndProcessImage env m i p s) = Inr r \<Longrightarrow> r = imagen_image env i"
  by (auto simp add: generateAndProcessImage_def Let_def generateCaption_def populateImageContainer_def
        imagen_image_def
        split: promise.splits sum.splits prod.splits option.splits list.splits if_splits)

lemma imagen_loop_alt:
  "imagen_loop env m n i (p # ps) s =
     (case fst (generateAndProcessImage env m i p (updateProgress (i + 1) n s)) of
        Inl e \<Rightarrow> (Inl e, snd (generateAndProcessImage env m i p (updateProgress (i + 1) n s)))
      | Inr None \<Rightarrow>
          imagen_loop env m n (Suc i) ps (snd (generateAndProcessImage env m i p (updateProgress (i + 1) n s)))
      | Inr (Some g) \<Rightarrow>
          imagen_loop env m n (Suc i) ps
            ((snd (generateAndProcessImage env m i p (updateProgress (i + 1) n s)))
               \<lparr>allGeneratedImages :=
                  allGeneratedImages (snd (generateAndProcessImage env m i p (updateProgress (i + 1) n s))) @ [g]\<rparr>))"
  by (simp split: prod.splits sum.splits option.splits)

lemma imagen_loop_simps [simp]:
  "has_containers (snd (imagen_loop env m n i ps s)) = has_containers s"
  "untouched s0 (snd (imagen_loop env m n i ps s)) = untouched s0 s"
  "length (placeholders (snd (imagen_loop env m n i ps s))) = length (placeholders s)"
  by (induction ps arbitrary: i s; simp add: imagen_loop_alt del: imagen_loop.simps(2) split: sum.splits option.splits)+

lemma imagen_loop_images:
  "fst (imagen_loop env m n i ps s) = Inr u \<Longrightarrow>
   allGeneratedImages (snd (imagen_loop env m n i ps s)) =
     allGeneratedImages s @ List.map_filter (imagen_image env) [i..<i + length ps]"
proof (induction ps arbitrary: i s)
  case Nil
  show ?case by simp
next
  case (Cons p ps)
  let ?t = "generateAndProcessImage env m i p (updateProgress (i + 1) n s)"
  have e: "[i..<Suc (i + length ps)] = i # [Suc i..<Suc (i + length ps)]"
    using upt_conv_Cons [of i "Suc (i + length ps)"] by (simp del: upt_Suc)
  show ?case
  proof (cases "fst ?t")
    case (Inl err)
    with Cons.prems show ?thesis
      by (simp add: imagen_loop_alt del: imagen_loop.simps(2))
  next
    case (Inr r)
    then have r: "r = imagen_image env i"
      by (rule generateAndProcessImage_result)
    show ?thesis
    proof (cases r)
      case None
      with Inr Cons.prems
      have "fst (imagen_loop env m n (Suc i) ps (snd ?t)) = Inr u"
        by (simp add: imagen_loop_alt del: imagen_loop.simps(2))
      from Cons.IH [OF this] None Inr r show ?thesis
        by (simp add: imagen_loop_alt e del: imagen_loop.simps(2) upt_Suc)
    next
      case (Some g)
      let ?s1 = "(snd ?t)\<lparr>allGeneratedImages := allGeneratedImages (snd ?t) @ [g]\<rparr>"
      from Some Inr Cons.prems
      have "fst (imagen_loop env m n (Suc i) ps ?s1) = Inr u"
        by (simp add: imagen_loop_alt del: imagen_loop.simps(2))
      from Cons.IH [OF this] Some Inr r show ?thesis
        by (simp add: imagen_loop_alt e del: imagen_loop.simps(2) upt_Suc)
    qed
  qed
qed

lemma batch_loop_alt:
  "batch_loop env m p i (g # rest) s =
     (let captionText = (case fst (generateCaption env i (imageBytes g) p s) of
                           Inr t \<Rightarrow> t | Inl e \<Rightarrow> ''Caption not available.'');
          s1 = snd (generateCaption env i (imageBytes g) p s)
      in case fst (populateImageContainer env g i p captionText s1) of
           Inl e \<Rightarrow> (Inl e, snd (populateImageContainer env g i p captionText s1))
         | Inr u \<Rightarrow>
             batch_loop env m p (Suc i) rest
               (saveImageToDatabase env i (imageBytes g) p m captionText
                  (snd (populateImageContainer env g i p captionText s1))))"
  by (cases "generateCaption env i (imageBytes g) p s")
     (auto simp add: Let_def split: prod.splits sum.splits)

lemma batch_loop_simps [simp]:
  "has_containers (snd (batch_loop env m p i gs s)) = has_containers s"
  "untouched s0 (snd (batch_loop env m p i gs s)) = untouched s0 s"
  "length (placeholders (snd (batch_loop env m p i gs s))) = length (placeholders s)"
  "allGeneratedImages (snd (batch_loop env m p i gs s)) = allGeneratedImages s"
  by (induction gs arbitrary: i s; simp add: batch_loop_alt Let_def del: batch_loop.simps(2) split: sum.splits)+



lemma persister_launches_simps [simp]:
  "persister_launches (saveImageToDatabase env i b p m c s) = Suc (persister_launches s)"
  "persister_launches (snd (generateCaption env i b p s)) = persister_launches s"
  "persister_launches (snd (populateImageContainer env g i p c s)) = persister_launches s"
  "persister_launches (s\<lparr>allGeneratedImages := a\<rparr>) = persister_launches s"
  "persister_launches (s\<lparr>progressState := pr\<rparr>) = persister_launches s"
  "persister_launches (s\<lparr>imageGallery := ga\<rparr>) = persister_launches s"
  by (simp_all add: persister_launches_def is_metadata_call_def saveImageToDatabase_def Let_def
        getImageMetadata_def split: sum.splits metadata_json.splits)










lemma prepare_simps [simp]:
  "placeholders (prepare req s) = replicate (placeholder_count (numberOfImages req)) Placeholder"
  "has_containers (prepare req s)"
  "allGeneratedImages (prepare req s) = []"
  "calls (prepare req s) = calls s"
  "generationHistory (prepare req s) = generationHistory s"
  "stored_history (prepare req s) = stored_history s"
  "totalGeneratedCount (prepare req s) = totalGeneratedCount s"
  "errorHidden (prepare req s) = True"
  "errorMessage (prepare req s) = errorMessage s"
  by (simp_all add: prepare_def Let_def updateUiCounts_def hideError_def placeholders_def has_containers_def)

lemma finalize_some:
  assumes "allGeneratedImages s = g # rest"
  shows "generationHistory (finalize env req s) =
           \<lparr>item_id = now_id env, item_prompt = promptInput req, item_model = selectedModel req,
            thumbnail = imageBytes g, timestamp = now_timestamp env\<rparr> # generationHistory s"
    and "totalGeneratedCount (finalize env req s) = totalGeneratedCount s + Suc (length rest)"
    and "galleryCountSpan (finalize env req s) = Suc (length rest)"
    and "imageGallery (finalize env req s) = imageGallery s"
    and "calls (finalize env req s) = calls s"
    and "downloadHidden (finalize env req s) = False"
    and "errorHidden (finalize env req s) = (setItemOk env \<and> errorHidden s)"
    and "stored_history (finalize env req s) =
           (if setItemOk env then Some (HistoryJson (generationHistory (finalize env req s)))
            else stored_history s)"
  using assms
  by (simp_all add: finalize_def addToHistory_def saveHistory_def displayError_def updateUiCounts_def Let_def)

lemma finalize_none:
  assumes "allGeneratedImages s = []"
  shows "finalize env req s = s\<lparr>imageGallery := InnerHTML no_results_message\<rparr>"
  using assms by (simp add: finalize_def)

lemma generateImages_finalized:
  assumes "promptInput req \<noteq> []" and "fst (generation_phase env req (prepare req s)) = Inr u"
  shows "generateImages env req s =
     hideProgress ((finalize env req (snd (generation_phase env req (prepare req s))))
        \<lparr>buttonText := buttonText s, buttonDisabled := False\<rparr>)"
  using assms
  by (cases "generation_phase env req (prepare req s)")
     (simp add: generateImages_def generateImages_try_def)

section \<open>The generation phase and the last statement\<close>

lemma gemini_path_alt:
  "gemini_path env req s =
     (if diverseSubjects req \<and> more_than_one (numberOfImages req) then
        (case diverse_result env of
           Inl e \<Rightarrow> (Inl e, snd (getDiversePrompts env (promptInput req) (numberOfImages req)
                                   (showIndeterminateProgress diverse_label s)))
         | Inr ps \<Rightarrow>
             (Inr (), gemini_loop env (selectedModel req) (length ps) 0 ps
                        (snd (getDiversePrompts env (promptInput req) (numberOfImages req)
                                (showIndeterminateProgress diverse_label s)))))
      else
        (case Array_fill env (numberOfImages req) (promptInput req) of
           Inl e \<Rightarrow> (Inl e, s)
         | Inr ps \<Rightarrow> (Inr (), gemini_loop env (selectedModel req) (length ps) 0 ps s)))"
  by (simp add: gemini_path_def getDiversePrompts_def split: sum.splits)

lemma imagen_path_alt:
  "imagen_path env req s =
     (if diverseSubjects req then
        (case diverse_result env of
           Inl e \<Rightarrow> (Inl e, snd (getDiversePrompts env (promptInput req) (numberOfImages req)
                                   (showIndeterminateProgress diverse_label s)))
         | Inr ps \<Rightarrow>
             imagen_loop env (selectedModel req) (length ps) 0 ps
               (snd (getDiversePrompts env (promptInput req) (numberOfImages req)
                       (showIndeterminateProgress diverse_label s))))
      else
        (case batchOutcome env of
           Rejected e \<Rightarrow>
             (Inl e, (showIndeterminateProgress (IndeterminateCount (numberOfImages req)) s)
                       \<lparr>calls := calls s @ [ImagesCall (selectedModel req) (promptInput req) (numberOfImages req)]\<rparr>)
         | Resolved None \<Rightarrow>
             (Inr (), (showIndeterminateProgress (IndeterminateCount (numberOfImages req)) s)
                        \<lparr>calls := calls s @ [ImagesCall (selectedModel req) (promptInput req) (numberOfImages req)],
                          imageGallery := Containers (map (\<lambda>p. FailureNote ''Failed to generate images.'') (placeholders s))\<rparr>)
         | Resolved (Some []) \<Rightarrow>
             (Inr (), (showIndeterminateProgress (IndeterminateCount (numberOfImages req)) s)
                        \<lparr>calls := calls s @ [ImagesCall (selectedModel req) (promptInput req) (numberOfImages req)],
                          imageGallery := Containers (map (\<lambda>p. FailureNote ''Failed to generate images.'') (placeholders s))\<rparr>)
         | Resolved (Some (g # gs)) \<Rightarrow>
             batch_loop env (selectedModel req) (promptInput req) 0 (g # gs)
               ((showIndeterminateProgress (IndeterminateCount (numberOfImages req)) s)
                  \<lparr>calls := calls s @ [ImagesCall (selectedModel req) (promptInput req) (numberOfImages req)],
                    allGeneratedImages := g # gs\<rparr>)))"
  by (simp add: imagen_path_def getDiversePrompts_def Let_def showIndeterminateProgress_def
        del: batch_loop.simps(2)
        split: sum.splits promise.splits option.splits list.splits)

lemma generation_phase_untouched [simp]:
  "untouched s0 (snd (generation_phase env req s)) = untouched s0 s"
  by (simp add: generation_phase_def gemini_path_alt imagen_path_alt
        del: batch_loop.simps(2)
        split: sum.splits promise.splits option.splits list.splits)

lemma generation_phase_images:
  assumes "allGeneratedImages s = []" and "fst (generation_phase env req s) = Inr u"
  shows "allGeneratedImages (snd (generation_phase env req s)) = unit_images env req"
proof (cases "selectedModel req = ''gemini-2.5-flash-image-preview''")
  case True
  with assms show ?thesis
    by (simp add: generation_phase_def gemini_path_alt unit_images_def gemini_loop_images
          split: sum.splits if_splits)
next
  case False
  show ?thesis
  proof (cases "diverseSubjects req")
    case True
    with False assms show ?thesis
      using imagen_loop_images [of env "selectedModel req" _ 0 _ _ u]
      by (simp add: generation_phase_def imagen_path_alt unit_images_def split: sum.splits)
  next
    case d: False
    with False assms show ?thesis
      by (simp add: generation_phase_def imagen_path_alt unit_images_def
            del: batch_loop.simps(2)
            split: promise.splits option.splits list.splits)
  qed
qed

section \<open>The ledger stays in order\<close>

lemma generateImages_failed:
  assumes "promptInput req \<noteq> []" and "fst (generation_phase env req (prepare req s)) = Inl e"
  shows "generateImages env req s =
     hideProgress (((displayError (if e \<noteq> [] then e else ''Could not generate images.'')
                       (snd (generation_phase env req (prepare req s))))
                     \<lparr>imageGallery := InnerHTML run_failed_message\<rparr>)
        \<lparr>buttonText := buttonText s, buttonDisabled := False\<rparr>)"
  using assms
  by (cases "generation_phase env req (prepare req s)")
     (simp add: generateImages_def generateImages_try_def)

lemma generateImages_ledger:
  "(generationHistory (generateImages env req s) = generationHistory s
      \<and> stored_history (generateImages env req s) = stored_history s)
   \<or> (\<exists>item. timestamp item = now_timestamp env
         \<and> generationHistory (generateImages env req s) = item # generationHistory s
         \<and> (stored_history (generateImages env req s) = stored_history s
            \<or> stored_history (generateImages env req s) =
                 Some (HistoryJson (generationHistory (generateImages env req s)))))"
proof (cases "promptInput req = []")
  case True
  then show ?thesis by (simp add: generateImages_def displayError_def)
next
  case False
  define s1 where "s1 = snd (generation_phase env req (prepare req s))"
  have unt: "untouched (prepare req s) s1" by (simp add: s1_def)
  show ?thesis
  proof (cases "fst (generation_phase env req (prepare req s))")
    case (Inl e)
    from generateImages_failed [OF False Inl] unt show ?thesis
      by (simp add: s1_def [symmetric] hideProgress_def displayError_def untouched_def)
  next
    case (Inr u)
    have fin: "generateImages env req s =
        hideProgress ((finalize env req s1)\<lparr>buttonText := buttonText s, buttonDisabled := False\<rparr>)"
      unfolding s1_def using False Inr by (rule generateImages_finalized)
    show ?thesis
    proof (cases "allGeneratedImages s1")
      case Nil
      from finalize_none [OF this] unt show ?thesis
        by (simp add: fin hideProgress_def untouched_def)
    next
      case (Cons g rest)
      from finalize_some(1) [OF this] finalize_some(8) [OF this, of env req] unt show ?thesis
        by (simp add: fin hideProgress_def untouched_def)
    qed
  qed
qed

lemma most_recent_first_Cons:
  "most_recent_first items \<Longrightarrow> not_after t items \<Longrightarrow> timestamp item = t \<Longrightarrow>
   most_recent_first (item # items) \<and> not_after t (item # items)"
  by (auto simp add: most_recent_first_def not_after_def)

lemma not_after_mono: "not_after t items \<Longrightarrow> t \<le> t' \<Longrightarrow> not_after t' items"
  by (auto simp add: not_after_def)

lemma ledger_ok_mono: "ledger_ok t s \<Longrightarrow> t \<le> t' \<Longrightarrow> ledger_ok t' s"
  by (auto simp add: ledger_ok_def split: option.splits stored_text.splits intro: not_after_mono)

lemma ledger_ok_generate:
  assumes "ledger_ok t s" and "t \<le> now_timestamp env"
  shows "ledger_ok (now_timestamp env) (generateImages env req s)"
proof -
  from assms have ok: "ledger_ok (now_timestamp env) s" by (rule ledger_ok_mono)
  from generateImages_ledger [of env req s] show ?thesis
  proof (elim disjE exE conjE)
    assume "generationHistory (generateImages env req s) = generationHistory s"
      and "stored_history (generateImages env req s) = stored_history s"
    with ok show ?thesis by (simp add: ledger_ok_def)
  next
    fix item
    assume t: "timestamp item = now_timestamp env"
      and h: "generationHistory (generateImages env req s) = item # generationHistory s"
      and st: "stored_history (generateImages env req s) = stored_history s"
    from ok t have "most_recent_first (item # generationHistory s) \<and> not_after (now_timestamp env) (item # generationHistory s)"
      by (intro most_recent_first_Cons) (simp_all add: ledger_ok_def)
    with ok h st show ?thesis by (simp add: ledger_ok_def)
  next
    fix item
    assume t: "timestamp item = now_timestamp env"
      and h: "generationHistory (generateImages env req s) = item # generationHistory s"
      and st: "stored_history (generateImages env req s) = Some (HistoryJson (generationHistory (generateImages env req s)))"
    from ok t have "most_recent_first (item # generationHistory s) \<and> not_after (now_timestamp env) (item # generationHistory s)"
      by (intro most_recent_first_Cons) (simp_all add: ledger_ok_def)
    with h st show ?thesis by (simp add: ledger_ok_def)
  qed
qed

lemma ledger_ok_clear: "ledger_ok t s \<Longrightarrow> ledger_ok t (clearHistory ok s)"
  by (auto simp add: ledger_ok_def clearHistory_def saveHistory_def displayError_def
        most_recent_first_def not_after_def split: option.splits stored_text.splits)

lemma ledger_ok_load: "ledger_ok t s \<Longrightarrow> ledger_ok t (loadHistory s)"
  by (auto simp add: ledger_ok_def loadHistory_def most_recent_first_def not_after_def
        split: option.splits stored_text.splits)

lemma ledger_ok_play:
  "ledger_ok t s \<Longrightarrow> sorted (event_times evs) \<Longrightarrow> \<forall>u \<in> set (event_times evs). t \<le> u \<Longrightarrow>
   \<exists>t'. ledger_ok t' (play evs s)"
proof (induction evs arbitrary: t s)
  case Nil
  then show ?case by auto
next
  case (Cons ev evs)
  show ?case
  proof (cases ev)
    case (Generate env req)
    with Cons.prems have "ledger_ok (now_timestamp env) (generateImages env req s)"
      by (intro ledger_ok_generate) auto
    moreover from Cons.prems Generate have "sorted (event_times evs)"
      "\<forall>u \<in> set (event_times evs). now_timestamp env \<le> u" by simp_all
    ultimately have "\<exists>t'. ledger_ok t' (play evs (generateImages env req s))"
      by (rule Cons.IH)
    with Generate show ?thesis by simp
  next
    case (Clear ok)
    with Cons.prems have "ledger_ok t (clearHistory ok s)" "sorted (event_times evs)"
      "\<forall>u \<in> set (event_times evs). t \<le> u" by (simp_all add: ledger_ok_clear)
    then have "\<exists>t'. ledger_ok t' (play evs (clearHistory ok s))" by (rule Cons.IH)
    with Clear show ?thesis by simp
  next
    case Reload
    with Cons.prems have "ledger_ok t (loadHistory s)" "sorted (event_times evs)"
      "\<forall>u \<in> set (event_times evs). t \<le> u" by (simp_all add: ledger_ok_load)
    then have "\<exists>t'. ledger_ok t' (play evs (loadHistory s))" by (rule Cons.IH)
    with Reload show ?thesis by simp
  qed
qed

section \<open>The calls a run issues\<close>

lemma generation_calls_update [simp]:
  "generation_calls (s\<lparr>allGeneratedImages := a\<rparr>) = generation_calls s"
  "generation_calls (s\<lparr>progressState := pr\<rparr>) = generation_calls s"
  "generation_calls (s\<lparr>imageGallery := ga\<rparr>) = generation_calls s"
  "generation_calls (s\<lparr>buttonText := bt\<rparr>) = generation_calls s"
  "generation_calls (s\<lparr>buttonDisabled := bd\<rparr>) = generation_calls s"
  "generation_calls (s\<lparr>calls := calls s @ cs\<rparr>) = generation_calls s @ filter is_generation_call cs"
  by (simp_all add: generation_calls_def)

lemma generation_calls_simps [simp]:
  "generation_calls (saveImageToDatabase env i b p m c s) = generation_calls s"
  "generation_calls (snd (generateCaption env i b p s)) = generation_calls s"
  "generation_calls (snd (populateImageContainer env g i p c s)) = generation_calls s"
  "generation_calls (set_placeholder i co s) = generation_calls s"
  "generation_calls (updateProgress x y s) = generation_calls s"
  "generation_calls (showIndeterminateProgress pr s) = generation_calls s"
  "generation_calls (snd (getDiversePrompts env p n s)) = generation_calls s"
  "generation_calls (hideProgress s) = generation_calls s"
  "generation_calls (displayError e s) = generation_calls s"
  "generation_calls (prepare req s) = generation_calls s"
  by (simp_all add: generation_calls_def is_generation_call_def saveImageToDatabase_def Let_def
        getImageMetadata_def hideProgress_def displayError_def
        split: sum.splits metadata_json.splits)

lemma finalize_calls [simp]:
  "calls (finalize env req s) = calls s"
  "generation_calls (finalize env req s) = generation_calls s"
  by (simp_all add: generation_calls_def finalize_def addToHistory_def saveHistory_def displayError_def
        updateUiCounts_def Let_def split: list.splits)

lemma gemini_try_calls:
  "generation_calls (snd (gemini_try env m i p s)) = generation_calls s @ [ContentImageCall p]"
  by (auto simp add: gemini_try_def Let_def is_generation_call_def populateImageContainer_def
        split: promise.splits sum.splits prod.splits option.splits)

lemma gemini_iteration_calls [simp]:
  "generation_calls (gemini_iteration env m n i p s) = generation_calls s @ [ContentImageCall p]"
  by (simp add: gemini_iteration_alt gemini_try_calls split: sum.splits)

lemma gemini_loop_calls:
  "generation_calls (gemini_loop env m n i ps s) = generation_calls s @ map ContentImageCall ps"
  by (induction ps arbitrary: i s) simp_all

lemma generateAndProcessImage_calls [simp]:
  "generation_calls (snd (generateAndProcessImage env m i p s)) =
     generation_calls s @ [ImagesCall m p (Some 1)]"
  by (auto simp add: generateAndProcessImage_def Let_def is_generation_call_def
        populateImageContainer_def generateCaption_def
        split: promise.splits sum.splits prod.splits option.splits list.splits)

lemma imagen_loop_calls:
  "\<exists>k \<le> length ps.
     generation_calls (snd (imagen_loop env m n i ps s)) =
       generation_calls s @ map (\<lambda>p. ImagesCall m p (Some 1)) (take k ps)
     \<and> (\<forall>u. fst (imagen_loop env m n i ps s) = Inr u \<longrightarrow> k = length ps)"
proof (induction ps arbitrary: i s)
  case Nil
  show ?case by simp
next
  case (Cons p ps)
  let ?t = "generateAndProcessImage env m i p (updateProgress (i + 1) n s)"
  show ?case
  proof (cases "fst ?t")
    case (Inl e)
    then have "generation_calls (snd (imagen_loop env m n i (p # ps) s)) =
        generation_calls s @ map (\<lambda>p. ImagesCall m p (Some 1)) (take 1 (p # ps))
      \<and> (\<forall>u. fst (imagen_loop env m n i (p # ps) s) = Inr u \<longrightarrow> 1 = length (p # ps))"
      by (simp add: imagen_loop_alt del: imagen_loop.simps(2))
    then show ?thesis
      by (intro exI [of _ 1]) simp
  next
    case (Inr r)
    define s1 where "s1 = (case r of None \<Rightarrow> snd ?t
                           | Some g \<Rightarrow> (snd ?t)\<lparr>allGeneratedImages := allGeneratedImages (snd ?t) @ [g]\<rparr>)"
    have step: "imagen_loop env m n i (p # ps) s = imagen_loop env m n (Suc i) ps s1"
      using Inr by (simp add: imagen_loop_alt s1_def del: imagen_loop.simps(2) split: option.splits)
    have c1: "generation_calls s1 = generation_calls s @ [ImagesCall m p (Some 1)]"
      by (simp add: s1_def split: option.splits)
    from Cons.IH [of "Suc i" s1] obtain k where k: "k \<le> length ps"
      "generation_calls (snd (imagen_loop env m n (Suc i) ps s1)) =
         generation_calls s1 @ map (\<lambda>p. ImagesCall m p (Some 1)) (take k ps)"
      "\<forall>u. fst (imagen_loop env m n (Suc i) ps s1) = Inr u \<longrightarrow> k = length ps"
      by blast
    then have "Suc k \<le> length (p # ps)
      \<and> generation_calls (snd (imagen_loop env m n i (p # ps) s)) =
        generation_calls s @ map (\<lambda>p. ImagesCall m p (Some 1)) (take (Suc k) (p # ps))
      \<and> (\<forall>u. fst (imagen_loop env m n i (p # ps) s) = Inr u \<longrightarrow> Suc k = length (p # ps))"
      by (simp add: step c1 del: imagen_loop.simps(2))
    then show ?thesis by blast
  qed
qed

lemma generateImages_calls:
  assumes "promptInput req \<noteq> []"
  shows "calls (generateImages env req s) = calls (snd (generation_phase env req (prepare req s)))"
proof (cases "fst (generation_phase env req (prepare req s))")
  case (Inl e)
  from generateImages_failed [OF assms Inl] show ?thesis
    by (simp add: hideProgress_def displayError_def)
next
  case (Inr u)
  from generateImages_finalized [OF assms Inr] show ?thesis
    by (simp add: hideProgress_def)
qed


lemma finalize_images [simp]:
  "allGeneratedImages (finalize env req s) = allGeneratedImages s"
  by (simp add: finalize_def addToHistory_def saveHistory_def displayError_def
        updateUiCounts_def Let_def split: list.splits)

lemma generateImages_generation_calls:
  "promptInput req \<noteq> [] \<Longrightarrow>
   generation_calls (generateImages env req s) =
     generation_calls (snd (generation_phase env req (prepare req s)))"
  by (simp add: generation_calls_def generateImages_calls)

lemma calls_kept:
  "c \<in> set (calls s) \<Longrightarrow> c \<in> set (calls (saveImageToDatabase env i b p m ca s))"
  "c \<in> set (calls s) \<Longrightarrow> c \<in> set (calls (snd (generateAndProcessImage env m i p s)))"
  by (auto simp add: saveImageToDatabase_def generateAndProcessImage_def Let_def generateCaption_def
        populateImageContainer_def
        split: sum.splits metadata_json.splits promise.splits option.splits list.splits)

lemma imagen_loop_calls_kept:
  "c \<in> set (calls s) \<Longrightarrow> c \<in> set (calls (snd (imagen_loop env m n i ps s)))"
  by (induction ps arbitrary: i s)
     (auto simp add: imagen_loop_alt calls_kept simp del: imagen_loop.simps(2) split: sum.splits option.splits)

lemma batch_loop_calls_kept:
  "c \<in> set (calls s) \<Longrightarrow> c \<in> set (calls (snd (batch_loop env m p i gs s)))"
  by (induction gs arbitrary: i s)
     (auto simp add: batch_loop_alt Let_def calls_kept simp del: batch_loop.simps(2) split: sum.splits)

section \<open>The units attempted on the bulk path\<close>

lemma generateAndProcessImage_throws:
  "isl (fst (generateAndProcessImage env m i p s)) = bulk_unit_throws env (length (placeholders s)) i"
  by (auto simp add: generateAndProcessImage_def Let_def generateCaption_def populateImageContainer_def
        bulk_unit_throws_def
        split: promise.splits sum.splits prod.splits option.splits list.splits)

lemma units_attempted_first:
  "j < n \<Longrightarrow> bulk_unit_throws env slots (i + j) \<Longrightarrow> \<forall>l < j. \<not> bulk_unit_throws env slots (i + l) \<Longrightarrow>
   units_attempted env slots i n = Suc j"
proof (induction n arbitrary: i j)
  case 0
  then show ?case by simp
next
  case (Suc n)
  show ?case
  proof (cases j)
    case 0
    with Suc.prems show ?thesis by simp
  next
    case (Suc k)
    with Suc.prems have "\<not> bulk_unit_throws env slots i"
      by (metis add.right_neutral zero_less_Suc)
    moreover have "units_attempted env slots (Suc i) n = Suc k"
    proof (rule Suc.IH)
      show "k < n" using Suc.prems \<open>j = Suc k\<close> by simp
      show "bulk_unit_throws env slots (Suc i + k)" using Suc.prems \<open>j = Suc k\<close> by simp
      show "\<forall>l < k. \<not> bulk_unit_throws env slots (Suc i + l)"
      proof (intro allI impI)
        fix l assume "l < k"
        then have "Suc l < j" using \<open>j = Suc k\<close> by simp
        with Suc.prems(3) have "\<not> bulk_unit_throws env slots (i + Suc l)" by blast
        then show "\<not> bulk_unit_throws env slots (Suc i + l)" by simp
      qed
    qed
    ultimately show ?thesis using \<open>j = Suc k\<close> by simp
  qed
qed

lemma units_attempted_all:
  "\<forall>j < n. \<not> bulk_unit_throws env slots (i + j) \<Longrightarrow> units_attempted env slots i n = n"
proof (induction n arbitrary: i)
  case 0
  then show ?case by simp
next
  case (Suc n)
  from Suc.prems have a: "\<not> bulk_unit_throws env slots i"
    by (metis add.right_neutral zero_less_Suc)
  have "\<forall>j < n. \<not> bulk_unit_throws env slots (Suc i + j)"
  proof (intro allI impI)
    fix j assume "j < n"
    then have "Suc j < Suc n" by simp
    with Suc.prems have "\<not> bulk_unit_throws env slots (i + Suc j)" by blast
    then show "\<not> bulk_unit_throws env slots (Suc i + j)" by simp
  qed
  then have "units_attempted env slots (Suc i) n = n" by (rule Suc.IH)
  with a show ?case by simp
qed

lemma units_attempted_bounds:
  "units_attempted env slots i n \<le> n" "0 < n \<Longrightarrow> 1 \<le> units_attempted env slots i n"
  by (induction n arbitrary: i) auto

lemma imagen_loop_attempted:
  "generation_calls (snd (imagen_loop env m n i ps s)) =
     generation_calls s @
       map (\<lambda>p. ImagesCall m p (Some 1))
         (take (units_attempted env (length (placeholders s)) i (length ps)) ps)"
proof (induction ps arbitrary: i s)
  case Nil
  show ?case by simp
next
  case (Cons p ps)
  let ?t = "generateAndProcessImage env m i p (updateProgress (i + 1) n s)"
  have thr: "isl (fst ?t) = bulk_unit_throws env (length (placeholders s)) i"
    by (simp add: generateAndProcessImage_throws)
  show ?case
  proof (cases "fst ?t")
    case (Inl e)
    with thr have "bulk_unit_throws env (length (placeholders s)) i" by simp
    with Inl show ?thesis
      by (simp add: imagen_loop_alt del: imagen_loop.simps(2))
  next
    case (Inr r)
    with thr have no: "\<not> bulk_unit_throws env (length (placeholders s)) i" by simp
    define s1 where "s1 = (case r of None \<Rightarrow> snd ?t
                           | Some g \<Rightarrow> (snd ?t)\<lparr>allGeneratedImages := allGeneratedImages (snd ?t) @ [g]\<rparr>)"
    have step: "imagen_loop env m n i (p # ps) s = imagen_loop env m n (Suc i) ps s1"
      using Inr by (simp add: imagen_loop_alt s1_def del: imagen_loop.simps(2) split: option.splits)
    have c1: "generation_calls s1 = generation_calls s @ [ImagesCall m p (Some 1)]"
      by (simp add: s1_def split: option.splits)
    have l1: "length (placeholders s1) = length (placeholders s)"
      by (simp add: s1_def split: option.splits)
    from Cons.IH [of "Suc i" s1] no show ?thesis
      by (simp add: step c1 l1 del: imagen_loop.simps(2))
  qed
qed

lemma imagen_loop_throws:
  "isl (fst (imagen_loop env m n i ps s)) \<longleftrightarrow>
     (\<exists>j < length ps. bulk_unit_throws env (length (placeholders s)) (i + j))"
proof (induction ps arbitrary: i s)
  case Nil
  show ?case by simp
next
  case (Cons p ps)
  let ?t = "generateAndProcessImage env m i p (updateProgress (i + 1) n s)"
  have thr: "isl (fst ?t) = bulk_unit_throws env (length (placeholders s)) i"
    by (simp add: generateAndProcessImage_throws)
  show ?case
  proof (cases "fst ?t")
    case (Inl e)
    with thr have "bulk_unit_throws env (length (placeholders s)) (i + 0)" by simp
    then have "\<exists>j < length (p # ps). bulk_unit_throws env (length (placeholders s)) (i + j)"
      by (intro exI [of _ 0]) simp
    with Inl show ?thesis
      by (simp add: imagen_loop_alt del: imagen_loop.simps(2))
  next
    case (Inr r)
    with thr have no: "\<not> bulk_unit_throws env (length (placeholders s)) i" by simp
    define s1 where "s1 = (case r of None \<Rightarrow> snd ?t
                           | Some g \<Rightarrow> (snd ?t)\<lparr>allGeneratedImages := allGeneratedImages (snd ?t) @ [g]\<rparr>)"
    have step: "imagen_loop env m n i (p # ps) s = imagen_loop env m n (Suc i) ps s1"
      using Inr by (simp add: imagen_loop_alt s1_def del: imagen_loop.simps(2) split: option.splits)
    have l1: "length (placeholders s1) = length (placeholders s)"
      by (simp add: s1_def split: option.splits)
    have "(\<exists>j < length (p # ps). bulk_unit_throws env (length (placeholders s)) (i + j)) \<longleftrightarrow>
          (\<exists>j < length ps. bulk_unit_throws env (length (placeholders s)) (Suc i + j))"
    proof
      assume "\<exists>j < length (p # ps). bulk_unit_throws env (length (placeholders s)) (i + j)"
      then obtain j where j: "j < length (p # ps)" "bulk_unit_throws env (length (placeholders s)) (i + j)"
        by blast
      with no obtain k where "j = Suc k" by (cases j) auto
      with j show "\<exists>j < length ps. bulk_unit_throws env (length (placeholders s)) (Suc i + j)"
        by (intro exI [of _ k]) simp
    next
      assume "\<exists>j < length ps. bulk_unit_throws env (length (placeholders s)) (Suc i + j)"
      then obtain k where "k < length ps" "bulk_unit_throws env (length (placeholders s)) (Suc i + k)"
        by blast
      then show "\<exists>j < length (p # ps). bulk_unit_throws env (length (placeholders s)) (i + j)"
        by (intro exI [of _ "Suc k"]) simp
    qed
    with Cons.IH [of "Suc i" s1] show ?thesis
      by (simp add: step l1 del: imagen_loop.simps(2))
  qed
qed

lemma generation_phase_containers:
  "has_containers s \<Longrightarrow> has_containers (snd (generation_phase env req s))"
  by (simp add: generation_phase_def gemini_path_alt imagen_path_alt
        del: batch_loop.simps(2)
        split: sum.splits promise.splits option.splits list.splits)

lemma finished_run_gallery:
  assumes "promptInput req \<noteq> []" and "fst (generation_phase env req (prepare req s)) = Inr u"
  shows "imageGallery (generateImages env req s) \<noteq> InnerHTML run_failed_message"
proof -
  define s1 where "s1 = snd (generation_phase env req (prepare req s))"
  have "has_containers s1"
    unfolding s1_def by (rule generation_phase_containers) simp
  then have c: "imageGallery s1 = Containers (placeholders s1)"
    by (simp add: has_containers_def)
  have "imageGallery (finalize env req s1) = imageGallery s1
      \<or> imageGallery (finalize env req s1) = InnerHTML no_results_message"
    by (cases "allGeneratedImages s1") (simp_all add: finalize_some(4) finalize_none)
  with c generateImages_finalized [OF assms] show ?thesis
    by (auto simp add: s1_def [symmetric] hideProgress_def no_results_message_def run_failed_message_def)
qed

section \<open>One failing unit on the multimodal path\<close>

text \<open>
  The loop of the multimodal path cannot throw: when the unit at one index yields no image and
  every other unit does, all but one of the planned units are recorded.
\<close>

lemma length_map_filter:
  "length (List.map_filter f xs) = length (filter (\<lambda>x. f x \<noteq> None) xs)"
  by (induction xs) (auto split: option.splits)

lemma length_filter_all_but_one:
  "k < n \<Longrightarrow> length (filter (\<lambda>j. j \<noteq> k) [0..<n]) = n - 1"
proof (induction n)
  case 0
  then show ?case by simp
next
  case (Suc n)
  show ?case
  proof (cases "k = n")
    case True
    then have "filter (\<lambda>j. j \<noteq> k) [0..<n] = [0..<n]"
      by (intro filter_True) auto
    with True show ?thesis by simp
  next
    case False
    with Suc have "length (filter (\<lambda>j. j \<noteq> k) [0..<n]) = n - 1" "0 < n" by auto
    with False show ?thesis by simp
  qed
qed

lemma gemini_single_failure_isolated:
  assumes "k < length ps" and "gemini_image env k = None"
      and "\<forall>j < length ps. j \<noteq> k \<longrightarrow> gemini_image env j \<noteq> None"
  shows "length (allGeneratedImages (gemini_loop env m n 0 ps s)) =
           length (allGeneratedImages s) + (length ps - 1)"
proof -
  have "filter (\<lambda>j. gemini_image env j \<noteq> None) [0..<length ps] = filter (\<lambda>j. j \<noteq> k) [0..<length ps]"
    using assms by (intro filter_cong) auto
  then show ?thesis
    using assms(1) by (simp add: gemini_loop_images length_map_filter length_filter_all_but_one)
qed

section \<open>The scan of the parts\<close>

lemma scan_parts_last: "scan_parts (Some ps) = (last_image ps, last_caption ps)"
proof (induction ps rule: rev_induct)
  case Nil
  show ?case
    by (simp add: scan_parts_def last_image_def last_caption_def image_parts_def text_parts_def)
next
  case (snoc p ps)
  then have "fold scan_part ps (None, ''Caption not available.'') = (last_image ps, last_caption ps)"
    by (simp add: scan_parts_def)
  then show ?case
    by (auto simp add: scan_parts_def scan_part_def last_image_def last_caption_def image_parts_def
          text_parts_def truthy_def or_else_def split: option.splits)
qed

lemma or_else_nonempty: "b \<noteq> [] \<Longrightarrow> or_else a b \<noteq> []"
  by (simp add: or_else_def split: option.splits)

lemma last_caption_nonempty: "last_caption ps \<noteq> []"
  by (simp add: last_caption_def or_else_nonempty)

section \<open>Evaluation of the scenarios\<close>

lemmas run_defs = generateImages_def generateImages_try_def generation_phase_def prepare_def finalize_def
  gemini_path_def imagen_path_def gemini_iteration_def gemini_try_def generateAndProcessImage_def
  getDiversePrompts_def diverse_result_def populateImageContainer_def saveImageToDatabase_def
  generateCaption_def
  getImageMetadata_def getImageMetadata_try_def addToHistory_def saveHistory_def displayError_def
  hideError_def updateUiCounts_def updateProgress_def showIndeterminateProgress_def hideProgress_def
  placeholders_def set_placeholder_def placeholder_count_def Array_fill_def more_than_one_def
  scan_parts_def scan_part_def found_mimeType_def response_parts_def truthy_def or_else_def
  scenario_env_def fresh_page_def interleaved_parts_def offline_def later_env_def one_fox_def
  three_cities_def two_cities_def steady_env_def Let_def

section \<open>Claims\<close>

text \<open>
  Claim C7. The classifier never fails outward: for every prompt and every way its backing call
  settles it returns a value, and when the call is rejected or its text is not JSON the value
  is the fallback made of the first 50 characters of the prompt and the category Other.
\<close>

theorem getImageMetadata_never_fails:
  "(\<exists>m. getImageMetadata response prompt = Inr m) \<and>
   getImageMetadata (Rejected e) prompt = Inr (MetaValue (Some (take 50 prompt)) (Some ''Other'')) \<and>
   getImageMetadata (Resolved (SyntaxError e)) prompt = Inr (MetaValue (Some (take 50 prompt)) (Some ''Other''))"
  by (simp add: getImageMetadata_def getImageMetadata_try_def split: sum.split promise.split json_text.split)

theorem getImageMetadata_never_fails_witness:
  "getImageMetadata (Rejected ''network down'') ''a red fox'' = Inr (MetaValue (Some ''a red fox'') (Some ''Other''))"
  using getImageMetadata_never_fails [of "Rejected ''network down''" "''a red fox''" "''network down''"]
  by simp

text \<open>
  Claim C9. A request with an empty prompt fails at once with the validation message, whatever
  its count and model: the page is the one before the call with this message shown, so no
  network call is logged and neither the gallery, the progress bar nor the ledger has changed.
\<close>

theorem empty_prompt_rejected:
  assumes "promptInput req = []"
  shows "generateImages env req s =
           s\<lparr>errorMessage := ''An error occurred: Please enter a prompt.'', errorHidden := False\<rparr>
     \<and> calls (generateImages env req s) = calls s
     \<and> imageGallery (generateImages env req s) = imageGallery s
     \<and> progressState (generateImages env req s) = progressState s
     \<and> generationHistory (generateImages env req s) = generationHistory s"
  using assms by (simp add: generateImages_def displayError_def)

theorem empty_prompt_rejected_witness:
  "calls (generateImages offline
      \<lparr>promptInput = [], numberOfImages = Some 3, selectedModel = ''imagen-4.0-generate-001'',
       diverseSubjects = True\<rparr> fresh_page) = []
   \<and> errorMessage (generateImages offline
      \<lparr>promptInput = [], numberOfImages = Some 3, selectedModel = ''imagen-4.0-generate-001'',
       diverseSubjects = True\<rparr> fresh_page) = ''An error occurred: Please enter a prompt.''"
  using empty_prompt_rejected [of "\<lparr>promptInput = [], numberOfImages = Some 3,
      selectedModel = ''imagen-4.0-generate-001'', diverseSubjects = True\<rparr>" offline fresh_page]
  by (simp add: fresh_page_def)


text \<open>
  Claim C3, as amended. On the sequential multimodal path the loop scans all the parts of the
  response and keeps the last of each kind: the image of the unit is the data of the last part
  that has inline data and no truthy text, its caption is the text of the last part with a
  truthy text, or "Caption not available." when there is none. When no such image part is
  present, or the data kept is empty, the unit fails with "Model did not return an image for
  this prompt.": no image is recorded and its slot, if it exists, shows the failure note.
  Otherwise the image is recorded and the slot shows it with that caption.
\<close>

theorem gemini_unit_takes_last_parts:
  assumes "contentOutcome env i = Resolved (Content (Some ps))"
  shows "scan_parts (Some ps) = (last_image ps, last_caption ps)
     \<and> ((last_image ps = None \<or> last_image ps = Some []) \<longrightarrow>
          fst (gemini_try env model i p s) = Inl no_image_message
          \<and> allGeneratedImages (gemini_iteration env model n i p s) = allGeneratedImages s
          \<and> placeholders (gemini_iteration env model n i p s) =
              (placeholders s)[i := FailureNote (failure_text p)])
     \<and> (\<forall>b. last_image ps = Some b \<and> b \<noteq> [] \<and> i < length (placeholders s) \<longrightarrow>
          fst (gemini_try env model i p s) = Inr ()
          \<and> map imageBytes (allGeneratedImages (gemini_iteration env model n i p s)) =
              map imageBytes (allGeneratedImages s) @ [b]
          \<and> placeholders (gemini_iteration env model n i p s) =
              (placeholders s)[i := Populated b p (last_caption ps) (\<not> imgComplete env i)
                 (if imgComplete env i then NoHandler else FinishLoading)])"
proof (intro conjI impI allI)
  show "scan_parts (Some ps) = (last_image ps, last_caption ps)"
    by (rule scan_parts_last)
next
  assume h: "last_image ps = None \<or> last_image ps = Some []"
  then show "fst (gemini_try env model i p s) = Inl no_image_message"
    using assms by (auto simp add: gemini_try_def response_parts_def scan_parts_last)
  from h show "allGeneratedImages (gemini_iteration env model n i p s) = allGeneratedImages s"
    using assms
    by (auto simp add: gemini_iteration_def gemini_try_def response_parts_def scan_parts_last)
  from h show "placeholders (gemini_iteration env model n i p s) =
      (placeholders s)[i := FailureNote (failure_text p)]"
    using assms
    by (auto simp add: gemini_iteration_def gemini_try_def response_parts_def scan_parts_last
          not_less list_update_beyond)
next
  fix b
  assume h: "last_image ps = Some b \<and> b \<noteq> [] \<and> i < length (placeholders s)"
  then show "fst (gemini_try env model i p s) = Inr ()"
    using assms last_caption_nonempty [of ps]
    by (auto simp add: gemini_try_def response_parts_def scan_parts_last
          populateImageContainer_def Let_def)
  from h show "map imageBytes (allGeneratedImages (gemini_iteration env model n i p s)) =
      map imageBytes (allGeneratedImages s) @ [b]"
    using assms last_caption_nonempty [of ps]
    by (auto simp add: gemini_iteration_def gemini_try_def response_parts_def scan_parts_last
          populateImageContainer_def Let_def)
  from h show "placeholders (gemini_iteration env model n i p s) =
      (placeholders s)[i := Populated b p (last_caption ps) (\<not> imgComplete env i)
         (if imgComplete env i then NoHandler else FinishLoading)]"
    using assms last_caption_nonempty [of ps]
    by (auto simp add: gemini_iteration_def gemini_try_def response_parts_def scan_parts_last
          populateImageContainer_def Let_def)
qed

text \<open>
  The theorem at two responses: the interleaved one, whose last image and last text are kept,
  and one with a caption only, whose unit fails.
\<close>

theorem gemini_unit_takes_last_parts_witness:
  "placeholders (gemini_iteration scenario_env ''gemini-2.5-flash-image-preview'' 1 0 ''a red fox''
      (fresh_page\<lparr>imageGallery := Containers [Placeholder]\<rparr>)) =
     [Populated ''B'' ''a red fox'' ''second'' True FinishLoading]
   \<and> placeholders (gemini_iteration
        (scenario_env\<lparr>contentOutcome := \<lambda>i. Resolved (Content (Some [\<lparr>part_text = Some ''only words'', inlineData = None\<rparr>]))\<rparr>)
        ''gemini-2.5-flash-image-preview'' 1 0 ''a red fox''
        (fresh_page\<lparr>imageGallery := Containers [Placeholder]\<rparr>)) =
     [FailureNote (failure_text ''a red fox'')]"
proof -
  have a: "contentOutcome scenario_env 0 = Resolved (Content (Some interleaved_parts))"
    by (simp add: scenario_env_def)
  have b: "last_image interleaved_parts = Some ''B''" "last_caption interleaved_parts = ''second''"
    by (simp_all add: last_image_def last_caption_def image_parts_def text_parts_def
          interleaved_parts_def truthy_def or_else_def)
  have c: "contentOutcome
      (scenario_env\<lparr>contentOutcome := \<lambda>i. Resolved (Content (Some [\<lparr>part_text = Some ''only words'', inlineData = None\<rparr>]))\<rparr>) 0 =
      Resolved (Content (Some [\<lparr>part_text = Some ''only words'', inlineData = None\<rparr>]))"
    by simp
  have d: "last_image [\<lparr>part_text = Some ''only words'', inlineData = None\<rparr>] = None"
    by (simp add: last_image_def image_parts_def truthy_def)
  show ?thesis
    using gemini_unit_takes_last_parts [OF a, of "''gemini-2.5-flash-image-preview''" "''a red fox''"
            "fresh_page\<lparr>imageGallery := Containers [Placeholder]\<rparr>" 1]
          gemini_unit_takes_last_parts [OF c, of "''gemini-2.5-flash-image-preview''" "''a red fox''"
            "fresh_page\<lparr>imageGallery := Containers [Placeholder]\<rparr>" 1]
          b d
    by (simp add: scenario_env_def)
qed

text \<open>
  Claim C3 as stated fails: on the interleaved response the first image-bearing part carries
  A and the first text-bearing part reads "first", and the unit shows image B with the
  caption "second".
\<close>

theorem first_parts_counterexample:
  "scan_parts (Some interleaved_parts) = (Some ''B'', ''second'')
   \<and> imageGallery (generateImages scenario_env
        \<lparr>promptInput = ''a red fox'', numberOfImages = Some 1,
         selectedModel = ''gemini-2.5-flash-image-preview'', diverseSubjects = False\<rparr> fresh_page) =
       Containers [Populated ''B'' ''a red fox'' ''second'' True FinishLoading]"
  by (simp add: run_defs)


text \<open>
  Claim C6, as amended. For every unit whose image generation succeeded, a failure of the
  captioning call never fails the unit. Where the orchestrator awaits the caption itself (the
  single-image function and the loop over the batched answer of the bulk path), the unit is
  rendered and handed to the persister with the caption "Caption not available.", and the loop
  goes on. "Could not generate caption." is the fallback of the renderer's own caption request
  only, which it makes when the image has loaded and no caption was passed to it.
\<close>

theorem caption_failure_keeps_unit:
  assumes "captionOutcome env i = Rejected e" and "i < length (placeholders s)"
  shows "(imagesOutcome env i = Resolved (Some (g # gs)) \<longrightarrow>
            generateAndProcessImage env model i p s =
              (Inr (Some g),
               saveImageToDatabase env i (imageBytes g) p model ''Caption not available.''
                 (set_placeholder i
                    (Populated (imageBytes g) p ''Caption not available.'' (\<not> imgComplete env i)
                       (if imgComplete env i then NoHandler else FinishLoading))
                    (s\<lparr>calls := calls s @ [ImagesCall model p (Some 1), CaptionCall (imageBytes g) p]\<rparr>))))
     \<and> batch_loop env model p i (g # rest) s =
         batch_loop env model p (Suc i) rest
           (saveImageToDatabase env i (imageBytes g) p model ''Caption not available.''
              (set_placeholder i
                 (Populated (imageBytes g) p ''Caption not available.'' (\<not> imgComplete env i)
                    (if imgComplete env i then NoHandler else FinishLoading))
                 (s\<lparr>calls := calls s @ [CaptionCall (imageBytes g) p]\<rparr>)))
     \<and> (\<forall>b a c l. placeholders s ! i = Populated b a c l CaptionThenFinish \<longrightarrow>
           placeholders (img_onload (Rejected e) i s) =
             (placeholders s)[i := Populated b a ''Could not generate caption.'' False CaptionThenFinish])"
  using assms
  by (auto simp add: generateAndProcessImage_def generateCaption_def populateImageContainer_def
        img_onload_def Let_def)

theorem caption_failure_keeps_unit_witness:
  "fst (generateAndProcessImage scenario_env ''imagen-4.0-generate-001'' 1 ''a red fox''
      (fresh_page\<lparr>imageGallery := Containers [Placeholder, Placeholder]\<rparr>)) =
     Inr (Some \<lparr>imageBytes = ''C'', mimeType = ''image/png''\<rparr>)
   \<and> placeholders (img_onload (Rejected ''caption service down'') 1
        (fresh_page\<lparr>imageGallery := Containers [Placeholder,
            Populated ''C'' ''a red fox'' ''Generating caption...'' True CaptionThenFinish]\<rparr>)) =
       [Placeholder, Populated ''C'' ''a red fox'' ''Could not generate caption.'' False CaptionThenFinish]"
proof -
  let ?s = "fresh_page\<lparr>imageGallery := Containers [Placeholder, Placeholder]\<rparr>"
  let ?t = "fresh_page\<lparr>imageGallery := Containers [Placeholder,
            Populated ''C'' ''a red fox'' ''Generating caption...'' True CaptionThenFinish]\<rparr>"
  have a: "captionOutcome scenario_env 1 = Rejected ''caption service down''"
    by (simp add: scenario_env_def)
  have b: "1 < length (placeholders ?s)"
    by (simp add: placeholders_def)
  have c: "1 < length (placeholders ?t)"
    by (simp add: placeholders_def)
  have d: "imagesOutcome scenario_env 1 = Resolved (Some [\<lparr>imageBytes = ''C'', mimeType = ''image/png''\<rparr>])"
    by (simp add: scenario_env_def)
  have e: "placeholders ?t ! 1 = Populated ''C'' ''a red fox'' ''Generating caption...'' True CaptionThenFinish"
    by (simp add: placeholders_def)
  have "fst (generateAndProcessImage scenario_env ''imagen-4.0-generate-001'' 1 ''a red fox'' ?s) =
      Inr (Some \<lparr>imageBytes = ''C'', mimeType = ''image/png''\<rparr>)"
    using caption_failure_keeps_unit [OF a b, THEN conjunct1, THEN mp, OF d,
        of "''imagen-4.0-generate-001''" "''a red fox''"]
    by simp
  moreover have "placeholders (img_onload (Rejected ''caption service down'') 1 ?t) =
       [Placeholder, Populated ''C'' ''a red fox'' ''Could not generate caption.'' False CaptionThenFinish]"
    using caption_failure_keeps_unit [OF a c, THEN conjunct2, THEN conjunct2, rule_format, OF e]
    by (simp add: placeholders_def)
  ultimately show ?thesis by simp
qed

text \<open>
  Claim C6 as stated fails: with the batched call answering two images and every caption call
  rejected, both units are shown with "Caption not available.", not with
  "Could not generate caption.".
\<close>

theorem caption_fallback_counterexample:
  "imageGallery (generateImages scenario_env
        \<lparr>promptInput = ''a red fox'', numberOfImages = Some 2,
         selectedModel = ''imagen-4.0-generate-001'', diverseSubjects = False\<rparr> fresh_page) =
       Containers [Populated ''D'' ''a red fox'' ''Caption not available.'' True FinishLoading,
                   Populated ''E'' ''a red fox'' ''Caption not available.'' True FinishLoading]"
  by (simp add: run_defs eval_nat_numeral)



text \<open>
  Claim C4. When the generation phase ends without a top-level exception, so that the last
  statement of the \<^verbatim>\<open>try\<close> block runs: if at least one unit succeeded, one history entry is
  prepended and its thumbnail is the image of the first successful unit; if none succeeded, the
  gallery shows the aggregate failure message and the ledger, in memory and in the storage, is
  unchanged. A unit succeeded when its generation call yielded an image.
\<close>

theorem finalizing_history:
  assumes "promptInput req \<noteq> []"
      and "fst (generation_phase env req (prepare req s)) = Inr u"
  shows "let s' = generateImages env req s in
     (\<forall>g rest. unit_images env req = g # rest \<longrightarrow>
        generationHistory s' =
          \<lparr>item_id = now_id env, item_prompt = promptInput req, item_model = selectedModel req,
           thumbnail = imageBytes g, timestamp = now_timestamp env\<rparr> # generationHistory s)
     \<and> (unit_images env req = [] \<longrightarrow>
          generationHistory s' = generationHistory s \<and> stored_history s' = stored_history s
          \<and> imageGallery s' = InnerHTML no_results_message)"
proof -
  define s1 where "s1 = snd (generation_phase env req (prepare req s))"
  define s' where "s' = generateImages env req s"
  have fin: "s' = hideProgress ((finalize env req s1)\<lparr>buttonText := buttonText s, buttonDisabled := False\<rparr>)"
    unfolding s'_def s1_def using assms by (rule generateImages_finalized)
  have imgs: "allGeneratedImages s1 = unit_images env req"
    unfolding s1_def using assms(2) by (intro generation_phase_images) simp_all
  have unt: "untouched (prepare req s) s1"
    by (simp add: s1_def)
  have a: "generationHistory s' =
          \<lparr>item_id = now_id env, item_prompt = promptInput req, item_model = selectedModel req,
           thumbnail = imageBytes g, timestamp = now_timestamp env\<rparr> # generationHistory s"
    if "unit_images env req = g # rest" for g rest
  proof -
    from that imgs have "allGeneratedImages s1 = g # rest" by simp
    from finalize_some(1) [OF this] unt show ?thesis
      by (simp add: fin hideProgress_def untouched_def)
  qed
  have b: "generationHistory s' = generationHistory s \<and> stored_history s' = stored_history s
          \<and> imageGallery s' = InnerHTML no_results_message"
    if "unit_images env req = []"
  proof -
    from that imgs have "allGeneratedImages s1 = []" by simp
    from finalize_none [OF this] unt show ?thesis
      by (simp add: fin hideProgress_def untouched_def)
  qed
  from a b show ?thesis
    unfolding Let_def s'_def [symmetric] by blast
qed

theorem finalizing_history_witness:
  "generationHistory (generateImages scenario_env
      \<lparr>promptInput = ''a red fox'', numberOfImages = Some 1,
       selectedModel = ''gemini-2.5-flash-image-preview'', diverseSubjects = False\<rparr> fresh_page) =
     [\<lparr>item_id = 1000, item_prompt = ''a red fox'', item_model = ''gemini-2.5-flash-image-preview'',
       thumbnail = ''B'', timestamp = 1001\<rparr>]
   \<and> generationHistory (generateImages offline
      \<lparr>promptInput = ''a red fox'', numberOfImages = Some 1,
       selectedModel = ''gemini-2.5-flash-image-preview'', diverseSubjects = False\<rparr> fresh_page) = []
   \<and> imageGallery (generateImages offline
      \<lparr>promptInput = ''a red fox'', numberOfImages = Some 1,
       selectedModel = ''gemini-2.5-flash-image-preview'', diverseSubjects = False\<rparr> fresh_page) =
     InnerHTML no_results_message"
proof -
  let ?req = "\<lparr>promptInput = ''a red fox'', numberOfImages = Some 1,
       selectedModel = ''gemini-2.5-flash-image-preview'', diverseSubjects = False\<rparr>"
  have p: "promptInput ?req \<noteq> []" by simp
  have a: "fst (generation_phase scenario_env ?req (prepare ?req fresh_page)) = Inr ()"
    by (simp add: run_defs)
  have b: "fst (generation_phase offline ?req (prepare ?req fresh_page)) = Inr ()"
    by (simp add: run_defs)
  have c: "unit_images scenario_env ?req = [\<lparr>imageBytes = ''B'', mimeType = ''image/png''\<rparr>]"
    by (simp add: unit_images_def gemini_image_def run_defs)
  have d: "unit_images offline ?req = []"
    by (simp add: unit_images_def gemini_image_def run_defs)
  from finalizing_history [OF p a] finalizing_history [OF p b] c d
  show ?thesis
    by (simp add: Let_def scenario_env_def fresh_page_def)
qed

text \<open>
  Claim C8. Recording prepends the new entry, leaving the older entries as they are, and, when
  the storage accepts the write, persists the whole ledger, so that loading gives it back.
  From a ledger in order, after any sequence of runs, clears and reloads whose clock readings
  do not decrease, the ledger that \<^verbatim>\<open>loadHistory\<close> restores is in order, most recent first,
  and so is the one in memory.
\<close>

theorem history_most_recent_first:
  assumes "ledger_ok t s" and "sorted (event_times evs)" and "\<forall>u \<in> set (event_times evs). t \<le> u"
  shows "most_recent_first (generationHistory (loadHistory (play evs s)))
     \<and> most_recent_first (generationHistory (play evs s))
     \<and> generationHistory (addToHistory ok a b p m g s) =
         \<lparr>item_id = a, item_prompt = p, item_model = m, thumbnail = imageBytes g, timestamp = b\<rparr>
           # generationHistory s
     \<and> (ok \<longrightarrow> stored_history (addToHistory ok a b p m g s) =
                  Some (HistoryJson (generationHistory (addToHistory ok a b p m g s)))
              \<and> generationHistory (loadHistory (addToHistory ok a b p m g s)) =
                  generationHistory (addToHistory ok a b p m g s))"
proof -
  from ledger_ok_play [OF assms] obtain t' where ok': "ledger_ok t' (play evs s)" ..
  then have "ledger_ok t' (loadHistory (play evs s))" by (rule ledger_ok_load)
  with ok' have ordered: "most_recent_first (generationHistory (loadHistory (play evs s)))"
    "most_recent_first (generationHistory (play evs s))"
    by (simp_all add: ledger_ok_def)
  have prepend: "generationHistory (addToHistory ok a b p m g s) =
         \<lparr>item_id = a, item_prompt = p, item_model = m, thumbnail = imageBytes g, timestamp = b\<rparr>
           # generationHistory s"
    by (simp add: addToHistory_def saveHistory_def displayError_def Let_def)
  have persist: "ok \<longrightarrow> stored_history (addToHistory ok a b p m g s) =
                  Some (HistoryJson (generationHistory (addToHistory ok a b p m g s)))
              \<and> generationHistory (loadHistory (addToHistory ok a b p m g s)) =
                  generationHistory (addToHistory ok a b p m g s)"
    by (simp add: addToHistory_def saveHistory_def loadHistory_def Let_def)
  from ordered prepend persist show ?thesis by simp
qed

theorem history_most_recent_first_witness:
  "most_recent_first (generationHistory (loadHistory
      (play [Generate scenario_env one_fox, Reload, Generate later_env one_fox] fresh_page)))
   \<and> map timestamp (generationHistory (loadHistory
      (play [Generate scenario_env one_fox, Reload, Generate later_env one_fox] fresh_page))) =
     [2001, 1001]"
proof -
  have a: "ledger_ok 0 fresh_page"
    by (simp add: ledger_ok_def fresh_page_def most_recent_first_def not_after_def)
  have b: "sorted (event_times [Generate scenario_env one_fox, Reload, Generate later_env one_fox])"
    by (simp add: scenario_env_def later_env_def)
  have c: "\<forall>u \<in> set (event_times [Generate scenario_env one_fox, Reload, Generate later_env one_fox]). 0 \<le> u"
    by (simp add: scenario_env_def later_env_def)
  have d: "map timestamp (generationHistory (loadHistory
      (play [Generate scenario_env one_fox, Reload, Generate later_env one_fox] fresh_page))) =
     [2001, 1001]"
    by (simp add: run_defs loadHistory_def)
  from history_most_recent_first [OF a b c] d show ?thesis
    by simp
qed

text \<open>
  Claim C2, as amended. For every run with diversification and a count above 1, the run aborts
  with zero units and no generation call exactly when the Diversifier throws, which it does
  when its call is rejected, when the text is not JSON or is \<^verbatim>\<open>null\<close>, and when \<^verbatim>\<open>prompts\<close>
  is missing, no array or empty. That abort shows the error, replaces the gallery by the
  failure message and leaves the ledger and the total alone. Every non-empty array lets
  generation proceed, whatever its length: at least one generation call is issued, and the
  plan is the returned strings in order. On the multimodal path there is one generation call
  per string and the run does not abort. On the bulk path there is one generation call per
  string up to and including the first unit that throws: the first unit whose call is rejected
  or whose index has no slot; when no unit throws, every string gets its call and the run does
  not abort.
\<close>

theorem diversifier_contract:
  assumes "promptInput req \<noteq> []" and "diverseSubjects req" and "more_than_one (numberOfImages req)"
  shows "let s' = generateImages env req s; slots = placeholder_count (numberOfImages req) in
     (diverse_result env = Inr ps \<longleftrightarrow>
        diverseOutcome env = Resolved (Parsed (DiverseValue (PromptArray ps))) \<and> ps \<noteq> [])
     \<and> (\<forall>e. diverse_result env = Inl e \<longrightarrow>
           allGeneratedImages s' = []
           \<and> calls s' = calls s @ [DiversePromptsCall (promptInput req) (numberOfImages req)]
           \<and> generation_calls s' = generation_calls s
           \<and> imageGallery s' = InnerHTML run_failed_message
           \<and> \<not> errorHidden s'
           \<and> errorMessage s' = ''An error occurred: '' @ (if e \<noteq> [] then e else ''Could not generate images.'')
           \<and> generationHistory s' = generationHistory s
           \<and> totalGeneratedCount s' = totalGeneratedCount s)
     \<and> (diverse_result env = Inr ps \<longrightarrow>
           generation_calls s' \<noteq> generation_calls s
           \<and> (selectedModel req = ''gemini-2.5-flash-image-preview'' \<longrightarrow>
                generation_calls s' = generation_calls s @ map ContentImageCall ps
                \<and> allGeneratedImages s' = List.map_filter (gemini_image env) [0..<length ps]
                \<and> imageGallery s' \<noteq> InnerHTML run_failed_message)
           \<and> (selectedModel req \<noteq> ''gemini-2.5-flash-image-preview'' \<longrightarrow>
                generation_calls s' =
                  generation_calls s @
                    map (\<lambda>p. ImagesCall (selectedModel req) p (Some 1))
                      (take (units_attempted env slots 0 (length ps)) ps)
                \<and> 1 \<le> units_attempted env slots 0 (length ps)
                \<and> units_attempted env slots 0 (length ps) \<le> length ps
                \<and> (\<forall>j < length ps.
                       bulk_unit_throws env slots j \<and> (\<forall>l < j. \<not> bulk_unit_throws env slots l) \<longrightarrow>
                       units_attempted env slots 0 (length ps) = Suc j)
                \<and> ((\<forall>j < length ps. \<not> bulk_unit_throws env slots j) \<longrightarrow>
                       units_attempted env slots 0 (length ps) = length ps
                       \<and> allGeneratedImages s' = List.map_filter (imagen_image env) [0..<length ps]
                       \<and> imageGallery s' \<noteq> InnerHTML run_failed_message)))"
proof -
  define s0 where "s0 = prepare req s"
  define sd where "sd = snd (getDiversePrompts env (promptInput req) (numberOfImages req)
                              (showIndeterminateProgress diverse_label s0))"
  define s' where "s' = generateImages env req s"
  define slots where "slots = placeholder_count (numberOfImages req)"
  have sd_calls: "generation_calls sd = generation_calls s"
    by (simp add: sd_def s0_def)
  have sd_slots: "length (placeholders sd) = slots"
    by (simp add: sd_def s0_def slots_def)
  have sd_images: "allGeneratedImages sd = []"
    by (simp add: sd_def s0_def)
  have a: "diverse_result env = Inr ps \<longleftrightarrow>
        diverseOutcome env = Resolved (Parsed (DiverseValue (PromptArray ps))) \<and> ps \<noteq> []"
    by (rule diverse_result_Inr)
  have b: "allGeneratedImages s' = []
           \<and> calls s' = calls s @ [DiversePromptsCall (promptInput req) (numberOfImages req)]
           \<and> generation_calls s' = generation_calls s
           \<and> imageGallery s' = InnerHTML run_failed_message
           \<and> \<not> errorHidden s'
           \<and> errorMessage s' = ''An error occurred: '' @ (if e \<noteq> [] then e else ''Could not generate images.'')
           \<and> generationHistory s' = generationHistory s
           \<and> totalGeneratedCount s' = totalGeneratedCount s"
    if e: "diverse_result env = Inl e" for e
  proof -
    have "generation_phase env req s0 = (Inl e, sd)"
      using assms(2,3) e
      by (simp add: generation_phase_def gemini_path_alt imagen_path_alt sd_def)
    then have ph: "fst (generation_phase env req (prepare req s)) = Inl e"
      "snd (generation_phase env req (prepare req s)) = sd"
      by (simp_all add: s0_def)
    have unt: "untouched (prepare req s) sd"
      by (simp add: sd_def s0_def)
    have gc: "generation_calls s' = generation_calls s"
      using generateImages_generation_calls [OF assms(1), of env s]
      by (simp add: s'_def ph(2) sd_calls)
    from generateImages_failed [OF assms(1) ph(1)] unt have
      "allGeneratedImages s' = []
           \<and> calls s' = calls s @ [DiversePromptsCall (promptInput req) (numberOfImages req)]
           \<and> imageGallery s' = InnerHTML run_failed_message
           \<and> \<not> errorHidden s'
           \<and> errorMessage s' = ''An error occurred: '' @ (if e \<noteq> [] then e else ''Could not generate images.'')
           \<and> generationHistory s' = generationHistory s
           \<and> totalGeneratedCount s' = totalGeneratedCount s"
      by (simp add: s'_def ph(2) hideProgress_def displayError_def untouched_def)
         (simp add: sd_def s0_def)
    with gc show ?thesis by simp
  qed
  have c: "generation_calls s' = generation_calls s @ map ContentImageCall ps
              \<and> allGeneratedImages s' = List.map_filter (gemini_image env) [0..<length ps]
              \<and> imageGallery s' \<noteq> InnerHTML run_failed_message"
    if r: "diverse_result env = Inr ps"
      and g: "selectedModel req = ''gemini-2.5-flash-image-preview''"
  proof -
    have "generation_phase env req s0 =
        (Inr (), gemini_loop env (selectedModel req) (length ps) 0 ps sd)"
      using assms(2,3) r g by (simp add: generation_phase_def gemini_path_alt sd_def)
    then have ph: "fst (generation_phase env req (prepare req s)) = Inr ()"
      "snd (generation_phase env req (prepare req s)) =
         gemini_loop env (selectedModel req) (length ps) 0 ps sd"
      by (simp_all add: s0_def)
    have "imageGallery s' \<noteq> InnerHTML run_failed_message"
      unfolding s'_def using assms(1) ph(1) by (rule finished_run_gallery)
    with sd_images generateImages_finalized [OF assms(1) ph(1)]
      generateImages_generation_calls [OF assms(1), of env s]
    show ?thesis
      by (simp add: s'_def ph(2) hideProgress_def gemini_loop_calls gemini_loop_images sd_calls)
  qed
  have d: "generation_calls s' =
             generation_calls s @
               map (\<lambda>p. ImagesCall (selectedModel req) p (Some 1))
                 (take (units_attempted env slots 0 (length ps)) ps)
           \<and> ((\<forall>j < length ps. \<not> bulk_unit_throws env slots j) \<longrightarrow>
                  allGeneratedImages s' = List.map_filter (imagen_image env) [0..<length ps]
                  \<and> imageGallery s' \<noteq> InnerHTML run_failed_message)"
    if r: "diverse_result env = Inr ps"
      and g: "selectedModel req \<noteq> ''gemini-2.5-flash-image-preview''"
  proof -
    let ?loop = "imagen_loop env (selectedModel req) (length ps) 0 ps sd"
    have ph: "generation_phase env req (prepare req s) = ?loop"
      using assms(2) r g by (simp add: generation_phase_def imagen_path_alt sd_def s0_def)
    then have "generation_calls s' = generation_calls (snd ?loop)"
      using generateImages_generation_calls [OF assms(1), of env s]
      by (simp add: s'_def)
    with imagen_loop_attempted [of env "selectedModel req" "length ps" 0 ps sd]
    have calls: "generation_calls s' =
             generation_calls s @
               map (\<lambda>p. ImagesCall (selectedModel req) p (Some 1))
                 (take (units_attempted env slots 0 (length ps)) ps)"
      by (simp add: sd_calls sd_slots)
    have quiet: "allGeneratedImages s' = List.map_filter (imagen_image env) [0..<length ps]
                  \<and> imageGallery s' \<noteq> InnerHTML run_failed_message"
      if no: "\<forall>j < length ps. \<not> bulk_unit_throws env slots j"
    proof -
      from no imagen_loop_throws [of env "selectedModel req" "length ps" 0 ps sd]
      have "\<not> isl (fst ?loop)"
        by (simp add: sd_slots)
      then have ok: "fst ?loop = Inr ()"
        by (cases "fst ?loop") simp_all
      then have ok': "fst (generation_phase env req (prepare req s)) = Inr ()"
        by (simp add: ph)
      have "imageGallery s' \<noteq> InnerHTML run_failed_message"
        unfolding s'_def using assms(1) ok' by (rule finished_run_gallery)
      moreover have "allGeneratedImages s' = List.map_filter (imagen_image env) [0..<length ps]"
        using generateImages_finalized [OF assms(1) ok'] imagen_loop_images [OF ok] sd_images
        by (simp add: s'_def ph hideProgress_def)
      ultimately show ?thesis by simp
    qed
    from calls quiet show ?thesis by blast
  qed
  have grow: "generation_calls s' \<noteq> generation_calls s" if r: "diverse_result env = Inr ps"
  proof -
    from r a have ne: "ps \<noteq> []" by simp
    then have one: "1 \<le> units_attempted env slots 0 (length ps)"
      by (intro units_attempted_bounds(2)) simp
    show ?thesis
    proof (cases "selectedModel req = ''gemini-2.5-flash-image-preview''")
      case True
      from c [OF r True] ne show ?thesis by simp
    next
      case False
      from one ne have "take (units_attempted env slots 0 (length ps)) ps \<noteq> []"
        by (cases ps) (auto simp add: take_Cons' split: if_splits)
      with d [OF r False] show ?thesis by simp
    qed
  qed
  have k1: "1 \<le> units_attempted env slots 0 (length ps)" if r: "diverse_result env = Inr ps"
    using r a by (intro units_attempted_bounds(2)) simp
  have k2: "units_attempted env slots 0 (length ps) \<le> length ps"
    by (rule units_attempted_bounds(1))
  have k3: "\<forall>j < length ps.
              bulk_unit_throws env slots j \<and> (\<forall>l < j. \<not> bulk_unit_throws env slots l) \<longrightarrow>
              units_attempted env slots 0 (length ps) = Suc j"
    using units_attempted_first [of _ "length ps" env slots 0] by simp
  have k4: "(\<forall>j < length ps. \<not> bulk_unit_throws env slots j) \<longrightarrow>
              units_attempted env slots 0 (length ps) = length ps"
    using units_attempted_all [of "length ps" env slots 0] by simp
  from a b c d grow k1 k2 k3 k4 show ?thesis
    unfolding Let_def s'_def [symmetric] slots_def [symmetric] by blast
qed

text \<open>
  The theorem at four runs: the multimodal request with a two-prompt answer, the same request
  with a rejected Diversifier, the bulk request whose first unit throws, and the bulk request
  none of whose units throws.
\<close>

theorem diversifier_contract_witness:
  "generation_calls (generateImages scenario_env three_cities fresh_page) =
     [ContentImageCall ''city at dawn'', ContentImageCall ''city at night'']
   \<and> calls (generateImages offline three_cities fresh_page) = [DiversePromptsCall ''city'' (Some 3)]
   \<and> imageGallery (generateImages offline three_cities fresh_page) = InnerHTML run_failed_message
   \<and> generation_calls (generateImages scenario_env two_cities fresh_page) =
       [ImagesCall ''imagen-4.0-generate-001'' ''city at dawn'' (Some 1)]
   \<and> generation_calls (generateImages steady_env two_cities fresh_page) =
       [ImagesCall ''imagen-4.0-generate-001'' ''city at dawn'' (Some 1),
        ImagesCall ''imagen-4.0-generate-001'' ''city at night'' (Some 1)]
   \<and> imageGallery (generateImages steady_env two_cities fresh_page) \<noteq> InnerHTML run_failed_message"
proof -
  let ?ps = "[''city at dawn'', ''city at night'']"
  have h: "promptInput three_cities \<noteq> []" "diverseSubjects three_cities"
    "more_than_one (numberOfImages three_cities)"
    by (simp_all add: three_cities_def more_than_one_def)
  have h2: "promptInput two_cities \<noteq> []" "diverseSubjects two_cities"
    "more_than_one (numberOfImages two_cities)"
    by (simp_all add: two_cities_def more_than_one_def)
  have a: "diverse_result scenario_env = Inr ?ps" "diverse_result steady_env = Inr ?ps"
    by (simp_all add: diverse_result_def scenario_env_def steady_env_def)
  have b: "diverse_result offline = Inl ''offline''"
    by (simp add: diverse_result_def offline_def)
  have t: "bulk_unit_throws scenario_env 2 0"
    "\<forall>j < length ?ps. \<not> bulk_unit_throws steady_env 2 j"
    by (simp_all add: bulk_unit_throws_def scenario_env_def steady_env_def)
  have n: "placeholder_count (numberOfImages two_cities) = 2"
    by (simp add: placeholder_count_def two_cities_def)
  have u: "units_attempted scenario_env 2 0 (length ?ps) = 1"
    using t(1) by (simp add: eval_nat_numeral)
  note multi = diversifier_contract [OF h, where env = scenario_env and ps = ?ps and s = fresh_page]
  note abort = diversifier_contract [OF h, where env = offline and ps = "[]" and s = fresh_page]
  note bulk1 = diversifier_contract [OF h2, where env = scenario_env and ps = ?ps and s = fresh_page]
  note bulk2 = diversifier_contract [OF h2, where env = steady_env and ps = ?ps and s = fresh_page]
  have m1: "generation_calls (generateImages scenario_env three_cities fresh_page) =
     [ContentImageCall ''city at dawn'', ContentImageCall ''city at night'']"
    using multi a by (simp add: Let_def three_cities_def fresh_page_def generation_calls_def)
  have m2: "calls (generateImages offline three_cities fresh_page) = [DiversePromptsCall ''city'' (Some 3)]
     \<and> imageGallery (generateImages offline three_cities fresh_page) = InnerHTML run_failed_message"
    using abort b by (simp add: Let_def three_cities_def fresh_page_def)
  have m3: "generation_calls (generateImages scenario_env two_cities fresh_page) =
       [ImagesCall ''imagen-4.0-generate-001'' ''city at dawn'' (Some 1)]"
    using bulk1 a u
    by (simp add: Let_def n) (simp add: two_cities_def fresh_page_def generation_calls_def)
  have m4: "generation_calls (generateImages steady_env two_cities fresh_page) =
       [ImagesCall ''imagen-4.0-generate-001'' ''city at dawn'' (Some 1),
        ImagesCall ''imagen-4.0-generate-001'' ''city at night'' (Some 1)]
     \<and> imageGallery (generateImages steady_env two_cities fresh_page) \<noteq> InnerHTML run_failed_message"
    using bulk2 a t(2)
    by (simp add: Let_def n) (simp add: two_cities_def fresh_page_def generation_calls_def)
  from m1 m2 m3 m4 show ?thesis by simp
qed

text \<open>
  Claim C2 as stated fails: three images are asked for and the Diversifier answers with two
  prompts; the run does not abort, no error is shown, and two units are generated and shown.
\<close>

theorem short_diversifier_answer_counterexample:
  "errorHidden (generateImages scenario_env three_cities fresh_page)
   \<and> imageGallery (generateImages scenario_env three_cities fresh_page) =
       Containers [Populated ''B'' ''city at dawn'' ''second'' True FinishLoading,
                   Populated ''B'' ''city at night'' ''second'' True FinishLoading,
                   Placeholder]
   \<and> length (allGeneratedImages (generateImages scenario_env three_cities fresh_page)) = 2"
  by (simp add: run_defs eval_nat_numeral)

text \<open>
  Claim C5, as amended. Only the prompt is validated before the orchestration starts: a request
  with an empty prompt is rejected before any work. The count is not validated, and a request
  with a non-empty prompt enters the orchestration whatever its count, zero, negative or
  \<^verbatim>\<open>NaN\<close> included. On the bulk path the first backing call, the Diversifier's or the batched
  one, is issued with that count. On the multimodal path a count that creates no placeholder
  ends in the aggregate failure message when it is zero and in a top-level RangeError
  otherwise.
\<close>

theorem only_prompt_is_validated:
  "(promptInput req = [] \<longrightarrow> generateImages env req s = displayError ''Please enter a prompt.'' s)
   \<and> (promptInput req \<noteq> [] \<and> selectedModel req \<noteq> ''gemini-2.5-flash-image-preview'' \<longrightarrow>
        (if diverseSubjects req then DiversePromptsCall (promptInput req) (numberOfImages req)
         else ImagesCall (selectedModel req) (promptInput req) (numberOfImages req))
          \<in> set (calls (generateImages env req s)))
   \<and> (promptInput req \<noteq> [] \<and> selectedModel req = ''gemini-2.5-flash-image-preview''
        \<and> placeholder_count (numberOfImages req) = 0 \<longrightarrow>
        imageGallery (generateImages env req s) =
          InnerHTML (if numberOfImages req = Some 0 then no_results_message else run_failed_message))"
proof (intro conjI impI)
  assume "promptInput req = []"
  then show "generateImages env req s = displayError ''Please enter a prompt.'' s"
    by (simp add: generateImages_def)
next
  assume h: "promptInput req \<noteq> [] \<and> selectedModel req \<noteq> ''gemini-2.5-flash-image-preview''"
  then have c: "calls (generateImages env req s) = calls (snd (generation_phase env req (prepare req s)))"
    by (simp add: generateImages_calls)
  show "(if diverseSubjects req then DiversePromptsCall (promptInput req) (numberOfImages req)
         else ImagesCall (selectedModel req) (promptInput req) (numberOfImages req))
          \<in> set (calls (generateImages env req s))"
    using h
    by (simp add: c generation_phase_def imagen_path_alt imagen_loop_calls_kept batch_loop_calls_kept
          del: batch_loop.simps(2)
          split: sum.splits promise.splits option.splits list.splits)
next
  assume h: "promptInput req \<noteq> [] \<and> selectedModel req = ''gemini-2.5-flash-image-preview''
        \<and> placeholder_count (numberOfImages req) = 0"
  then have p: "promptInput req \<noteq> []" by simp
  from h have m: "\<not> more_than_one (numberOfImages req)"
    by (auto simp add: placeholder_count_def more_than_one_def split: option.splits if_splits)
  show "imageGallery (generateImages env req s) =
          InnerHTML (if numberOfImages req = Some 0 then no_results_message else run_failed_message)"
  proof (cases "numberOfImages req = Some 0")
    case True
    with h m have "generation_phase env req (prepare req s) = (Inr (), prepare req s)"
      by (simp add: generation_phase_def gemini_path_alt Array_fill_def)
    then have "fst (generation_phase env req (prepare req s)) = Inr ()"
      "snd (generation_phase env req (prepare req s)) = prepare req s" by simp_all
    with generateImages_finalized [OF p this(1)] True show ?thesis
      by (simp add: hideProgress_def finalize_none)
  next
    case False
    with h m have "fst (generation_phase env req (prepare req s)) = Inl (rangeErrorMessage env)"
      by (auto simp add: generation_phase_def gemini_path_alt Array_fill_def placeholder_count_def
            split: option.splits if_splits)
    from generateImages_failed [OF p this] False show ?thesis
      by (simp add: hideProgress_def)
  qed
qed

theorem only_prompt_is_validated_witness:
  "ImagesCall ''imagen-4.0-generate-001'' ''a red fox'' None \<in> set (calls (generateImages offline
      \<lparr>promptInput = ''a red fox'', numberOfImages = None,
       selectedModel = ''imagen-4.0-generate-001'', diverseSubjects = False\<rparr> fresh_page))
   \<and> imageGallery (generateImages offline
      \<lparr>promptInput = ''a red fox'', numberOfImages = Some (- 2),
       selectedModel = ''gemini-2.5-flash-image-preview'', diverseSubjects = False\<rparr> fresh_page) =
     InnerHTML run_failed_message
   \<and> errorMessage (generateImages offline
      \<lparr>promptInput = [], numberOfImages = Some (- 2),
       selectedModel = ''gemini-2.5-flash-image-preview'', diverseSubjects = False\<rparr> fresh_page) =
     ''An error occurred: Please enter a prompt.''"
  using only_prompt_is_validated [of "\<lparr>promptInput = ''a red fox'', numberOfImages = None,
       selectedModel = ''imagen-4.0-generate-001'', diverseSubjects = False\<rparr>" offline fresh_page]
    only_prompt_is_validated [of "\<lparr>promptInput = ''a red fox'', numberOfImages = Some (- 2),
       selectedModel = ''gemini-2.5-flash-image-preview'', diverseSubjects = False\<rparr>" offline fresh_page]
    only_prompt_is_validated [of "\<lparr>promptInput = [], numberOfImages = Some (- 2),
       selectedModel = ''gemini-2.5-flash-image-preview'', diverseSubjects = False\<rparr>" offline fresh_page]
  by (simp add: placeholder_count_def displayError_def)

text \<open>
  Claim C5 as stated fails: a request for zero images with a non-empty prompt is not rejected;
  the batched generation call is issued, and the error shown is the one of that call.
\<close>

theorem count_not_validated_counterexample:
  "calls (generateImages offline
      \<lparr>promptInput = ''a red fox'', numberOfImages = Some 0,
       selectedModel = ''imagen-4.0-generate-001'', diverseSubjects = False\<rparr> fresh_page) =
     [ImagesCall ''imagen-4.0-generate-001'' ''a red fox'' (Some 0)]
   \<and> errorMessage (generateImages offline
      \<lparr>promptInput = ''a red fox'', numberOfImages = Some 0,
       selectedModel = ''imagen-4.0-generate-001'', diverseSubjects = False\<rparr> fresh_page) =
     ''An error occurred: offline''"
  by (simp add: run_defs)

text \<open>
  Claim C1 fails on the code, by a defect of the code. On the bulk path with diversification,
  the awaited call of the single-image function stands outside any \<^verbatim>\<open>try\<close>: when the call for
  the unit at index 0 is rejected, the exception reaches the outer handler. The unit at index
  1, whose call would answer with an image, is never attempted; the gallery is replaced by the
  failure message, and nothing succeeds, where the claim promises one success. The multimodal
  path wraps the same step in a \<^verbatim>\<open>try\<close> of its own.
\<close>

theorem rejected_unit_aborts_bulk_run:
  "imagen_image scenario_env 1 = Some \<lparr>imageBytes = ''C'', mimeType = ''image/png''\<rparr>
   \<and> calls (generateImages scenario_env two_cities fresh_page) =
       [DiversePromptsCall ''city'' (Some 2), ImagesCall ''imagen-4.0-generate-001'' ''city at dawn'' (Some 1)]
   \<and> imageGallery (generateImages scenario_env two_cities fresh_page) = InnerHTML run_failed_message
   \<and> errorMessage (generateImages scenario_env two_cities fresh_page) = ''An error occurred: quota exceeded''
   \<and> generationHistory (generateImages scenario_env two_cities fresh_page) = []
   \<and> totalGeneratedCount (generateImages scenario_env two_cities fresh_page) = 0"
  by (simp add: run_defs imagen_image_def eval_nat_numeral)
end
